theory Spec2Isabelle
  imports Complex_Main "HOL-Library.Word"
begin

section \<open>Platform values: bytes, strings, errors\<close>

text \<open>
  The client is TypeScript. A JavaScript string is a sequence of UTF-16 code units, a
  \<open>Buffer\<close> holds bytes, and a \<open>PublicKey\<close> of the Solana library holds a number of at most
  32 bytes (256 bits). A \<open>throw\<close> (or a rejected promise) is the \<open>Inl\<close> branch of a sum,
  a normal return the \<open>Inr\<close> branch. A JavaScript number is the real number that the
  double stands for: \<open>Number\<close> of a 64-bit integer and the quotient behind \<open>uiAmount\<close>
  are rounded to the nearest double; the seconds \<open>Date.now() / 1000\<close> are read as the real
  quotient. Calls of \<open>console.log\<close> are left out.
\<close>

type_synonym byte = "8 word"
type_synonym jsstring = "16 word list"
type_synonym PublicKey = "256 word"

datatype error = RangeError | TypeError | Error

text \<open>Sequencing: the rest of a function body runs only when a call has not thrown.\<close>

definition bind_err :: "error + 'a \<Rightarrow> ('a \<Rightarrow> error + 'b) \<Rightarrow> error + 'b" where
  "bind_err m f = (case m of Inl e \<Rightarrow> Inl e | Inr x \<Rightarrow> f x)"

text \<open>\<open>try { m } catch (e) { h e }\<close>.\<close>

definition catch :: "error + 'a \<Rightarrow> (error \<Rightarrow> error + 'a) \<Rightarrow> error + 'a" where
  "catch m h = (case m of Inl e \<Rightarrow> h e | Inr x \<Rightarrow> Inr x)"

text \<open>An ASCII literal of the source as a JavaScript string.\<close>

definition ascii :: "string \<Rightarrow> jsstring" where
  "ascii s = map (\<lambda>c. of_nat (of_char c)) s"

subsection \<open>\<open>Buffer.from(s, 'utf8')\<close>\<close>

definition is_lead :: "16 word \<Rightarrow> bool" where
  "is_lead c \<longleftrightarrow> 0xD800 \<le> c \<and> c \<le> 0xDBFF"

definition is_trail :: "16 word \<Rightarrow> bool" where
  "is_trail c \<longleftrightarrow> 0xDC00 \<le> c \<and> c \<le> 0xDFFF"

text \<open>
  The code points of a string: a lead surrogate followed by a trail surrogate is one
  supplementary code point, a surrogate on its own is replaced by U+FFFD.
\<close>

fun code_points :: "jsstring \<Rightarrow> nat list" where
  "code_points [] = []"
| "code_points [c] = [if is_lead c \<or> is_trail c then 0xFFFD else unat c]"
| "code_points (c # d # cs) =
     (if is_lead c \<and> is_trail d
      then (0x10000 + (unat c - 0xD800) * 0x400 + (unat d - 0xDC00)) # code_points cs
      else (if is_lead c \<or> is_trail c then 0xFFFD else unat c) # code_points (d # cs))"

definition utf8_bytes :: "nat \<Rightarrow> byte list" where
  "utf8_bytes cp =
     (if cp < 0x80 then [of_nat cp]
      else if cp < 0x800 then [of_nat (0xC0 + cp div 0x40), of_nat (0x80 + cp mod 0x40)]
      else if cp < 0x10000 then
        [of_nat (0xE0 + cp div 0x1000), of_nat (0x80 + cp div 0x40 mod 0x40),
         of_nat (0x80 + cp mod 0x40)]
      else
        [of_nat (0xF0 + cp div 0x40000), of_nat (0x80 + cp div 0x1000 mod 0x40),
         of_nat (0x80 + cp div 0x40 mod 0x40), of_nat (0x80 + cp mod 0x40)])"

definition Buffer_from_utf8 :: "jsstring \<Rightarrow> byte list" where
  "Buffer_from_utf8 s = concat (map utf8_bytes (code_points s))"

subsection \<open>Doubles\<close>

text \<open>
  Rounding to the nearest integer, ties to the even one; the binary exponent of a positive
  number (the \<open>e\<close> with \<open>2 powi e \<le> a < 2 powi (e + 1)\<close>), found by stepping from a start
  value, at most \<open>fuel\<close> steps; and the rounding of a real number to the nearest double
  (IEEE 754 binary64: 53 significant bits, ties to even, subnormal below
  \<open>2 powi - 1022\<close>). Numbers beyond the largest double do not occur here: the integers are
  64-bit, and the quotient behind \<open>uiAmount\<close> is at most \<open>2 ^ 63\<close> in magnitude.
\<close>

definition round_half_even :: "real \<Rightarrow> int" where
  "round_half_even m =
     (let f = \<lfloor>m\<rfloor>
      in if 1 / 2 < m - of_int f \<or> (m - of_int f = 1 / 2 \<and> odd f) then f + 1 else f)"

fun binade :: "nat \<Rightarrow> int \<Rightarrow> real \<Rightarrow> int" where
  "binade fuel e a =
     (if fuel = 0 then e
      else if a < 2 powi e then binade (fuel - 1) (e - 1) a
      else if 2 powi (e + 1) \<le> a then binade (fuel - 1) (e + 1) a
      else e)"

definition double_round :: "real \<Rightarrow> real" where
  "double_round x =
     (if x = 0 then 0
      else let e = max (binade 1100 0 \<bar>x\<bar> - 52) (- 1074)
           in of_int (round_half_even (x / 2 powi e)) * 2 powi e)"

text \<open>\<open>Number(n)\<close> of a \<open>BigInt\<close>: the nearest double.\<close>

definition Number_BigInt :: "int \<Rightarrow> real" where
  "Number_BigInt n = double_round (real_of_int n)"

text \<open>\<open>x / y\<close> of two doubles, for a divisor that is not zero.\<close>

definition double_div :: "real \<Rightarrow> real \<Rightarrow> real" where
  "double_div x y = double_round (x / y)"

subsection \<open>Little-endian integers\<close>

fun le_nat :: "byte list \<Rightarrow> nat" where
  "le_nat [] = 0"
| "le_nat (b # bs) = unat b + 0x100 * le_nat bs"

text \<open>
  \<open>buf.writeUInt32LE(value, 0)\<close> on a fresh 4-byte buffer: a value above \<open>0xFFFFFFFF\<close>
  is a \<open>RangeError\<close>; each byte stored keeps the low 8 bits.
\<close>

definition writeUInt32LE :: "nat \<Rightarrow> error + byte list" where
  "writeUInt32LE v =
     (if v \<le> 0xFFFFFFFF
      then Inr [of_nat v, of_nat (v div 0x100), of_nat (v div 0x10000), of_nat (v div 0x1000000)]
      else Inl RangeError)"

subsection \<open>\<open>new TextDecoder().decode(bytes)\<close>\<close>

text \<open>
  The UTF-8 decoder of the Encoding standard, in its default (replacement) mode. The state
  is the number of continuation bytes still needed, the code point collected so far and the
  bounds allowed for the next continuation byte. A byte that cannot continue a sequence
  yields U+FFFD and is then read again as the start of a sequence; so does the end of the
  input inside a sequence.
\<close>

fun utf8_decode :: "nat \<Rightarrow> nat \<Rightarrow> nat \<Rightarrow> nat \<Rightarrow> byte list \<Rightarrow> nat list" where
  "utf8_decode needed cp lower upper [] = (if needed = 0 then [] else [0xFFFD])"
| "utf8_decode needed cp lower upper (b # bs) =
     (let v = unat b in
      if needed = 0 then
        if v \<le> 0x7F then v # utf8_decode 0 0 0x80 0xBF bs
        else if 0xC2 \<le> v \<and> v \<le> 0xDF then utf8_decode 1 (v - 0xC0) 0x80 0xBF bs
        else if 0xE0 \<le> v \<and> v \<le> 0xEF then
          utf8_decode 2 (v - 0xE0) (if v = 0xE0 then 0xA0 else 0x80)
            (if v = 0xED then 0x9F else 0xBF) bs
        else if 0xF0 \<le> v \<and> v \<le> 0xF4 then
          utf8_decode 3 (v - 0xF0) (if v = 0xF0 then 0x90 else 0x80)
            (if v = 0xF4 then 0x8F else 0xBF) bs
        else 0xFFFD # utf8_decode 0 0 0x80 0xBF bs
      else if v < lower \<or> upper < v then 0xFFFD # utf8_decode 0 0 0x80 0xBF (b # bs)
      else if needed = 1 then (cp * 0x40 + (v - 0x80)) # utf8_decode 0 0 0x80 0xBF bs
      else utf8_decode (needed - 1) (cp * 0x40 + (v - 0x80)) 0x80 0xBF bs)"

definition utf16_units :: "nat \<Rightarrow> jsstring" where
  "utf16_units cp =
     (if cp < 0x10000 then [of_nat cp]
      else [of_nat (0xD800 + (cp - 0x10000) div 0x400),
            of_nat (0xDC00 + (cp - 0x10000) mod 0x400)])"

text \<open>A decoder made with no options drops one leading byte order mark (U+FEFF).\<close>

definition TextDecoder_decode :: "byte list \<Rightarrow> jsstring" where
  "TextDecoder_decode bs =
     (let cps = utf8_decode 0 0 0x80 0xBF bs
      in concat (map utf16_units
           (case cps of [] \<Rightarrow> [] | c # rest \<Rightarrow> if c = 0xFEFF then rest else cps)))"

subsection \<open>Byte views and \<open>DataView\<close>\<close>

text \<open>
  A view of bytes (\<open>Buffer\<close>, \<open>Uint8Array\<close>): the underlying \<open>ArrayBuffer\<close>, the offset of
  the view in it, and the length of the view. A view never reaches past its
  \<open>ArrayBuffer\<close>.
\<close>

record Buffer =
  buffer :: "byte list"
  byteOffset :: nat
  len :: nat

definition valid_view :: "Buffer \<Rightarrow> bool" where
  "valid_view d \<longleftrightarrow> byteOffset d + len d \<le> length (buffer d)"

text \<open>The bytes a view shows.\<close>

definition bytes :: "Buffer \<Rightarrow> byte list" where
  "bytes d = take (len d) (drop (byteOffset d) (buffer d))"

text \<open>A view that owns its \<open>ArrayBuffer\<close>.\<close>

definition Buffer_from :: "byte list \<Rightarrow> Buffer" where
  "Buffer_from bs = \<lparr>buffer = bs, byteOffset = 0, len = length bs\<rparr>"

text \<open>
  \<open>data.slice(start, stop)\<close> of a \<open>Buffer\<close>, for indices that are not negative: both are
  clamped to the length, and the result is a view of the same \<open>ArrayBuffer\<close>.
\<close>

definition Buffer_slice :: "Buffer \<Rightarrow> nat \<Rightarrow> nat \<Rightarrow> Buffer" where
  "Buffer_slice d start stop =
     (let s = min start (len d); e = min stop (len d)
      in \<lparr>buffer = buffer d, byteOffset = byteOffset d + s, len = e - s\<rparr>)"

text \<open>\<open>data[i]\<close>: the byte, or \<open>undefined\<close> (here \<open>None\<close>) past the end of the view.\<close>

definition index :: "Buffer \<Rightarrow> nat \<Rightarrow> byte option" where
  "index d i = (if i < len d then Some (bytes d ! i) else None)"

text \<open>
  \<open>new DataView(buffer, byteOffset, byteLength)\<close>: a window of the \<open>ArrayBuffer\<close>, or a
  \<open>RangeError\<close> when it does not fit. The getters read little-endian (their second
  argument is \<open>true\<close> at every call of the source).
\<close>

definition DataView :: "byte list \<Rightarrow> nat \<Rightarrow> nat \<Rightarrow> error + byte list" where
  "DataView buf off n =
     (if off + n \<le> length buf then Inr (take n (drop off buf)) else Inl RangeError)"

definition getUint32 :: "byte list \<Rightarrow> nat \<Rightarrow> error + nat" where
  "getUint32 dv pos =
     (if pos + 4 \<le> length dv then Inr (le_nat (take 4 (drop pos dv))) else Inl RangeError)"

definition getBigInt64 :: "byte list \<Rightarrow> nat \<Rightarrow> error + int" where
  "getBigInt64 dv pos =
     (if pos + 8 \<le> length dv
      then Inr (sint (of_nat (le_nat (take 8 (drop pos dv))) :: 64 word))
      else Inl RangeError)"

subsection \<open>\<open>PublicKey\<close>\<close>

text \<open>The big-endian number of a byte sequence, as \<open>new BN(bytes)\<close> reads it.\<close>

definition BN :: "byte list \<Rightarrow> nat" where
  "BN bs = foldl (\<lambda>a b. a * 0x100 + unat b) 0 bs"

text \<open>
  \<open>new PublicKey(bytes)\<close>: the number of the bytes; more than 32 significant bytes is an
  error (\<open>Invalid public key input\<close>).
\<close>

definition PublicKey_new :: "byte list \<Rightarrow> error + PublicKey" where
  "PublicKey_new bs = (if BN bs < 2 ^ 256 then Inr (of_nat (BN bs)) else Inl Error)"

fun be_bytes :: "nat \<Rightarrow> nat \<Rightarrow> byte list" where
  "be_bytes 0 v = []"
| "be_bytes (Suc k) v = be_bytes k (v div 0x100) @ [of_nat v]"

text \<open>\<open>key.toBuffer()\<close>: the number as 32 bytes, big-endian, zero-padded.\<close>

definition toBuffer :: "PublicKey \<Rightarrow> byte list" where
  "toBuffer k = be_bytes 32 (unat k)"

text \<open>\<open>SystemProgram.programId\<close> is the key of 32 zero bytes.\<close>

definition SystemProgram_programId :: PublicKey where
  "SystemProgram_programId = 0"

section \<open>The library and the RPC connection\<close>

text \<open>
  What the client imports and does not define: the program identifier and the treasury
  wallet of its configuration, the address derivation and the base-58 codec of the Solana
  library, and \<open>Math.pow\<close>, whose result the language leaves to the implementation (a
  double that approximates the power, never zero for the base 10). They are parameters of
  every operation.
\<close>

record lib =
  CARV_DOMAIN_PROGRAM_ID :: PublicKey
  treasuryWallet :: jsstring
  findProgramAddressSync :: "byte list list \<Rightarrow> PublicKey \<Rightarrow> error + (PublicKey \<times> nat)"
  PublicKey_fromString :: "jsstring \<Rightarrow> error + PublicKey"
  toBase58 :: "PublicKey \<Rightarrow> jsstring"
  Math_pow :: "real \<Rightarrow> real \<Rightarrow> real"

record AccountInfo =
  ai_data :: Buffer
  ai_owner :: PublicKey
  ai_lamports :: nat
  ai_executable :: bool

record Connection =
  getSlot :: "error + nat"
  getAccountInfo :: "PublicKey \<Rightarrow> error + AccountInfo option"
  getLatestBlockhash :: "error + jsstring"

section \<open>Address derivation (idl.ts)\<close>

definition getDomainPDA :: "lib \<Rightarrow> jsstring \<Rightarrow> error + (PublicKey \<times> nat)" where
  "getDomainPDA L name =
     (let nameBytes = Buffer_from_utf8 name
      in findProgramAddressSync L [Buffer_from_utf8 (ascii ''domain''), nameBytes]
           (CARV_DOMAIN_PROGRAM_ID L))"

section \<open>Transaction builders (domain-service.ts)\<close>

record AccountMeta =
  pubkey :: PublicKey
  isSigner :: bool
  isWritable :: bool

record TransactionInstruction =
  ix_keys :: "AccountMeta list"
  ix_programId :: PublicKey
  ix_data :: "byte list"

record Transaction =
  tx_feePayer :: PublicKey
  tx_instructions :: "TransactionInstruction list"
  tx_recentBlockhash :: jsstring

text \<open>
  \<open>treasuryWalletParam ? new PublicKey(treasuryWalletParam) : new PublicKey(treasuryWallet)\<close>:
  a missing or empty parameter selects the configured wallet.
\<close>

definition treasury_of :: "lib \<Rightarrow> jsstring option \<Rightarrow> error + PublicKey" where
  "treasury_of L treasuryWalletParam =
     (case treasuryWalletParam of
        None \<Rightarrow> PublicKey_fromString L (treasuryWallet L)
      | Some s \<Rightarrow> if s \<noteq> [] then PublicKey_fromString L s
                  else PublicKey_fromString L (treasuryWallet L))"

definition createRegisterInstruction ::
  "lib \<Rightarrow> jsstring \<Rightarrow> PublicKey \<Rightarrow> jsstring option \<Rightarrow> error + TransactionInstruction" where
  "createRegisterInstruction L name owner treasuryWalletParam =
     bind_err (getDomainPDA L name) (\<lambda>(domainPDA, bump).
     bind_err (treasury_of L treasuryWalletParam) (\<lambda>treasury.
     let nameBytes = Buffer_from_utf8 name in
     bind_err (writeUInt32LE (length nameBytes)) (\<lambda>nameLen.
     let discriminator = [211, 124, 67, 15, 211, 194, 178, 240];
         data = discriminator @ nameLen @ nameBytes
     in Inr \<lparr>ix_keys =
               [\<lparr>pubkey = domainPDA, isSigner = False, isWritable = True\<rparr>,
                \<lparr>pubkey = owner, isSigner = True, isWritable = True\<rparr>,
                \<lparr>pubkey = treasury, isSigner = False, isWritable = True\<rparr>,
                \<lparr>pubkey = SystemProgram_programId, isSigner = False, isWritable = False\<rparr>],
             ix_programId = CARV_DOMAIN_PROGRAM_ID L,
             ix_data = data\<rparr>)))"

text \<open>
  \<open>createRegisterTransaction\<close> builds the same instruction inline, makes the owner the fee
  payer and then fetches the block hash.
\<close>

definition createRegisterTransaction ::
  "lib \<Rightarrow> Connection \<Rightarrow> jsstring \<Rightarrow> PublicKey \<Rightarrow> jsstring option \<Rightarrow> error + Transaction" where
  "createRegisterTransaction L C name owner treasuryWalletParam =
     bind_err (getDomainPDA L name) (\<lambda>(domainPDA, bump).
     bind_err (treasury_of L treasuryWalletParam) (\<lambda>treasury.
     let discriminator = [211, 124, 67, 15, 211, 194, 178, 240];
         nameBytes = Buffer_from_utf8 name in
     bind_err (writeUInt32LE (length nameBytes)) (\<lambda>nameLen.
     let data = discriminator @ nameLen @ nameBytes;
         registerInstruction =
           \<lparr>ix_keys =
              [\<lparr>pubkey = domainPDA, isSigner = False, isWritable = True\<rparr>,
               \<lparr>pubkey = owner, isSigner = True, isWritable = True\<rparr>,
               \<lparr>pubkey = treasury, isSigner = False, isWritable = True\<rparr>,
               \<lparr>pubkey = SystemProgram_programId, isSigner = False, isWritable = False\<rparr>],
            ix_programId = CARV_DOMAIN_PROGRAM_ID L,
            ix_data = data\<rparr> in
     bind_err (getLatestBlockhash C) (\<lambda>blockhash.
     Inr \<lparr>tx_feePayer = owner, tx_instructions = [registerInstruction],
          tx_recentBlockhash = blockhash\<rparr>))))"

definition createRenewInstruction ::
  "lib \<Rightarrow> jsstring \<Rightarrow> PublicKey \<Rightarrow> jsstring option \<Rightarrow> error + TransactionInstruction" where
  "createRenewInstruction L name owner treasuryWalletParam =
     bind_err (getDomainPDA L name) (\<lambda>(domainPDA, bump).
     bind_err (treasury_of L treasuryWalletParam) (\<lambda>treasury.
     let discriminator = [43, 239, 15, 46, 27, 7, 163, 73]
     in Inr \<lparr>ix_keys =
               [\<lparr>pubkey = domainPDA, isSigner = False, isWritable = True\<rparr>,
                \<lparr>pubkey = owner, isSigner = True, isWritable = True\<rparr>,
                \<lparr>pubkey = treasury, isSigner = False, isWritable = True\<rparr>,
                \<lparr>pubkey = SystemProgram_programId, isSigner = False, isWritable = False\<rparr>],
             ix_programId = CARV_DOMAIN_PROGRAM_ID L,
             ix_data = discriminator\<rparr>))"

definition createRenewTransaction ::
  "lib \<Rightarrow> Connection \<Rightarrow> jsstring \<Rightarrow> PublicKey \<Rightarrow> jsstring option \<Rightarrow> error + Transaction" where
  "createRenewTransaction L C name owner treasuryWalletParam =
     bind_err (getDomainPDA L name) (\<lambda>(domainPDA, bump).
     bind_err (treasury_of L treasuryWalletParam) (\<lambda>treasury.
     let discriminator = [43, 239, 15, 46, 27, 7, 163, 73];
         renewInstruction =
           \<lparr>ix_keys =
              [\<lparr>pubkey = domainPDA, isSigner = False, isWritable = True\<rparr>,
               \<lparr>pubkey = owner, isSigner = True, isWritable = True\<rparr>,
               \<lparr>pubkey = treasury, isSigner = False, isWritable = True\<rparr>,
               \<lparr>pubkey = SystemProgram_programId, isSigner = False, isWritable = False\<rparr>],
            ix_programId = CARV_DOMAIN_PROGRAM_ID L,
            ix_data = discriminator\<rparr> in
     bind_err (getLatestBlockhash C) (\<lambda>blockhash.
     Inr \<lparr>tx_feePayer = owner, tx_instructions = [renewInstruction],
          tx_recentBlockhash = blockhash\<rparr>)))"

definition createTransferInstruction ::
  "lib \<Rightarrow> jsstring \<Rightarrow> PublicKey \<Rightarrow> PublicKey \<Rightarrow> error + TransactionInstruction" where
  "createTransferInstruction L name owner newOwner =
     bind_err (getDomainPDA L name) (\<lambda>(domainPDA, bump).
     let discriminator = [163, 52, 200, 231, 140, 3, 69, 186];
         data = discriminator @ toBuffer newOwner
     in Inr \<lparr>ix_keys =
               [\<lparr>pubkey = domainPDA, isSigner = False, isWritable = True\<rparr>,
                \<lparr>pubkey = owner, isSigner = True, isWritable = False\<rparr>],
             ix_programId = CARV_DOMAIN_PROGRAM_ID L,
             ix_data = data\<rparr>)"

definition createTransferTransaction ::
  "lib \<Rightarrow> Connection \<Rightarrow> jsstring \<Rightarrow> PublicKey \<Rightarrow> PublicKey \<Rightarrow> error + Transaction" where
  "createTransferTransaction L C name owner newOwner =
     bind_err (getDomainPDA L name) (\<lambda>(domainPDA, bump).
     let discriminator = [163, 52, 200, 231, 140, 3, 69, 186];
         data = discriminator @ toBuffer newOwner;
         transferInstruction =
           \<lparr>ix_keys =
              [\<lparr>pubkey = domainPDA, isSigner = False, isWritable = True\<rparr>,
               \<lparr>pubkey = owner, isSigner = True, isWritable = False\<rparr>],
            ix_programId = CARV_DOMAIN_PROGRAM_ID L,
            ix_data = data\<rparr> in
     bind_err (getLatestBlockhash C) (\<lambda>blockhash.
     Inr \<lparr>tx_feePayer = owner, tx_instructions = [transferInstruction],
          tx_recentBlockhash = blockhash\<rparr>))"

definition createSetDataInstruction ::
  "lib \<Rightarrow> jsstring \<Rightarrow> PublicKey \<Rightarrow> jsstring \<Rightarrow> error + TransactionInstruction" where
  "createSetDataInstruction L name owner data =
     bind_err (getDomainPDA L name) (\<lambda>(domainPDA, bump).
     let discriminator = [223, 114, 91, 136, 197, 78, 153, 153];
         dataBytes = Buffer_from_utf8 data in
     bind_err (writeUInt32LE (length dataBytes)) (\<lambda>dataLen.
     let instructionData = discriminator @ dataLen @ dataBytes
     in Inr \<lparr>ix_keys =
               [\<lparr>pubkey = domainPDA, isSigner = False, isWritable = True\<rparr>,
                \<lparr>pubkey = owner, isSigner = True, isWritable = False\<rparr>],
             ix_programId = CARV_DOMAIN_PROGRAM_ID L,
             ix_data = instructionData\<rparr>))"

definition createSetDataTransaction ::
  "lib \<Rightarrow> Connection \<Rightarrow> jsstring \<Rightarrow> PublicKey \<Rightarrow> jsstring \<Rightarrow> error + Transaction" where
  "createSetDataTransaction L C name owner data =
     bind_err (getDomainPDA L name) (\<lambda>(domainPDA, bump).
     let discriminator = [223, 114, 91, 136, 197, 78, 153, 153];
         dataBytes = Buffer_from_utf8 data in
     bind_err (writeUInt32LE (length dataBytes)) (\<lambda>dataLen.
     let instructionData = discriminator @ dataLen @ dataBytes;
         setDataInstruction =
           \<lparr>ix_keys =
              [\<lparr>pubkey = domainPDA, isSigner = False, isWritable = True\<rparr>,
               \<lparr>pubkey = owner, isSigner = True, isWritable = False\<rparr>],
            ix_programId = CARV_DOMAIN_PROGRAM_ID L,
            ix_data = instructionData\<rparr> in
     bind_err (getLatestBlockhash C) (\<lambda>blockhash.
     Inr \<lparr>tx_feePayer = owner, tx_instructions = [setDataInstruction],
          tx_recentBlockhash = blockhash\<rparr>)))"

section \<open>The domain directory (domain-service.ts)\<close>

text \<open>\<open>name.replace(/\.carv$/, '')\<close>: one \<open>.carv\<close> at the very end is removed.\<close>

definition strip_carv :: "jsstring \<Rightarrow> jsstring" where
  "strip_carv name =
     (let n = length name
      in if 5 \<le> n \<and> drop (n - 5) name = ascii ''.carv'' then take (n - 5) name else name)"

definition checkDomainAvailability :: "lib \<Rightarrow> Connection \<Rightarrow> jsstring \<Rightarrow> error + bool" where
  "checkDomainAvailability L C name =
     catch
       (let normalizedName = strip_carv name in
        bind_err (getDomainPDA L normalizedName) (\<lambda>(domainPDA, bump).
        bind_err (catch (getSlot C) (\<lambda>connError. Inl Error)) (\<lambda>slot.
        bind_err (getAccountInfo C domainPDA) (\<lambda>account.
        case account of
          Some acc \<Rightarrow>
            (let isOurProgram = (ai_owner acc = CARV_DOMAIN_PROGRAM_ID L)
             in Inr False)
        | None \<Rightarrow> Inr True))))
       (\<lambda>error. Inr False)"

record DomainInfo =
  di_owner :: "PublicKey option"
  di_name :: jsstring
  di_registered :: real
  di_expires :: real
  di_active :: bool
  di_data :: jsstring
  di_exists :: bool
  di_parseError :: "error option"

text \<open>
  The statements that walk the account bytes. They stand twice in the source, in the inner
  \<open>try\<close> of \<open>getDomainInfo\<close> and in \<open>parseDomainAccount\<close>. A record read from the bytes has
  no \<open>parseError\<close> field.
\<close>

definition parseDomainData :: "Buffer \<Rightarrow> error + DomainInfo" where
  "parseDomainData data =
     (let offset = 8;
          ownerBytes = Buffer_slice data offset (offset + 32) in
      bind_err (PublicKey_new (bytes ownerBytes)) (\<lambda>owner.
      let offset = offset + 32 in
      bind_err (DataView (buffer data) (byteOffset data + offset) 4) (\<lambda>view.
      bind_err (getUint32 view 0) (\<lambda>nameLen.
      let offset = offset + 4;
          nameBytes = Buffer_slice data offset (offset + nameLen);
          domainName = TextDecoder_decode (bytes nameBytes);
          offset = offset + nameLen in
      bind_err (DataView (buffer data) (byteOffset data + offset) 8) (\<lambda>view.
      bind_err (getBigInt64 view 0) (\<lambda>registered.
      let offset = offset + 8 in
      bind_err (DataView (buffer data) (byteOffset data + offset) 8) (\<lambda>view.
      bind_err (getBigInt64 view 0) (\<lambda>expires.
      let offset = offset + 8;
          active = (index data offset \<noteq> Some 0);
          offset = offset + 1 in
      bind_err (DataView (buffer data) (byteOffset data + offset) 4) (\<lambda>view.
      bind_err (getUint32 view 0) (\<lambda>dataLen.
      let offset = offset + 4;
          dataBytes = Buffer_slice data offset (offset + dataLen);
          metadata = TextDecoder_decode (bytes dataBytes)
      in Inr \<lparr>di_owner = Some owner, di_name = domainName,
              di_registered = Number_BigInt registered, di_expires = Number_BigInt expires,
              di_active = active, di_data = metadata, di_exists = True,
              di_parseError = None\<rparr>))))))))))"

definition parseDomainAccount :: "PublicKey \<Rightarrow> Buffer \<Rightarrow> error + DomainInfo option" where
  "parseDomainAccount address data =
     catch (bind_err (parseDomainData data) (\<lambda>info. Inr (Some info))) (\<lambda>error. Inr None)"

text \<open>
  \<open>getDomainInfo\<close>. The two readings of \<open>Date.now()\<close> (milliseconds) that the inner
  \<open>catch\<close> takes are the arguments \<open>now1\<close> and \<open>now2\<close>.
\<close>

definition getDomainInfo ::
  "lib \<Rightarrow> Connection \<Rightarrow> int \<Rightarrow> int \<Rightarrow> jsstring \<Rightarrow> error + DomainInfo option" where
  "getDomainInfo L C now1 now2 name =
     catch
       (bind_err (getDomainPDA L name) (\<lambda>(domainPDA, bump).
        bind_err (getAccountInfo C domainPDA) (\<lambda>account.
        case account of
          None \<Rightarrow> Inr None
        | Some acc \<Rightarrow>
            (let data = ai_data acc in
             catch
               (bind_err (parseDomainData data) (\<lambda>info. Inr (Some info)))
               (\<lambda>parseError.
                  Inr (Some \<lparr>di_owner = None, di_name = name,
                             di_registered = real_of_int now1 / 1000,
                             di_expires = real_of_int now2 / 1000 + 31536000,
                             di_active = True, di_data = [], di_exists = True,
                             di_parseError = Some parseError\<rparr>))))))
       (\<lambda>error. Inr None)"

text \<open>
  \<open>resolveDomain\<close>. Its own reading of \<open>Date.now()\<close> is \<open>now\<close>. The log line before the
  return calls \<open>domainInfo.owner.toString()\<close>, a \<open>TypeError\<close> when the owner is \<open>null\<close>.
\<close>

definition resolveDomain ::
  "lib \<Rightarrow> Connection \<Rightarrow> int \<Rightarrow> int \<Rightarrow> int \<Rightarrow> jsstring \<Rightarrow> error + PublicKey option" where
  "resolveDomain L C now1 now2 now domain =
     catch
       (let normalizedName = strip_carv domain in
        bind_err (getDomainInfo L C now1 now2 normalizedName) (\<lambda>domainInfo.
        case domainInfo of
          None \<Rightarrow> Inr None
        | Some info \<Rightarrow>
            if \<not> di_exists info then Inr None
            else if \<not> di_active info then Inr None
            else if di_expires info < real_of_int now / 1000 then Inr None
            else (case di_owner info of
                    None \<Rightarrow> Inl TypeError
                  | Some owner \<Rightarrow> Inr (Some owner))))
       (\<lambda>error. Inr None)"

section \<open>Token accounts (nft-service.ts)\<close>

record TokenAccountInfo =
  ta_mint :: jsstring
  ta_owner :: jsstring
  ta_amount :: int
  ta_decimals :: nat
  ta_uiAmount :: real

text \<open>The character class \<open>[1-9A-HJ-NP-Za-km-z]\<close>.\<close>

definition base58_char :: "16 word \<Rightarrow> bool" where
  "base58_char c \<longleftrightarrow>
     (0x31 \<le> c \<and> c \<le> 0x39) \<or> (0x41 \<le> c \<and> c \<le> 0x48) \<or> (0x4A \<le> c \<and> c \<le> 0x4E) \<or>
     (0x50 \<le> c \<and> c \<le> 0x5A) \<or> (0x61 \<le> c \<and> c \<le> 0x6B) \<or> (0x6D \<le> c \<and> c \<le> 0x7A)"

definition isValidPublicKey :: "lib \<Rightarrow> jsstring \<Rightarrow> error + bool" where
  "isValidPublicKey L address =
     (if address = [] then Inr False
      else if length address \<noteq> 44 then Inr False
      else catch
        (let onlyValidChars = list_all base58_char address;
             uniqueChars = length (remdups address)
         in if \<not> onlyValidChars \<or> uniqueChars \<le> 1 then Inr False
            else bind_err (PublicKey_fromString L address) (\<lambda>key. Inr True))
        (\<lambda>error. Inr False))"

text \<open>
  \<open>parseTokenAccount\<close>. Each inner \<open>try\<close> either leaves the function with \<open>null\<close> (here
  \<open>None\<close>) or yields its value. The field \<open>amount\<close> of the result is the decimal numeral of
  the integer kept here; \<open>data[72]\<close> is inside the view, which has at least 80 bytes.
\<close>

definition parseTokenAccount :: "lib \<Rightarrow> Buffer \<Rightarrow> error + TokenAccountInfo option" where
  "parseTokenAccount L data =
     catch
       (if len data < 80 then Inr None
        else
          bind_err
            (catch
               (let mintBytes = Buffer_slice data 0 32;
                    allZeros = list_all (\<lambda>byte. byte = 0) (bytes mintBytes)
                in if allZeros then Inr None
                   else bind_err (PublicKey_new (bytes mintBytes)) (\<lambda>mintKey.
                        let mint = toBase58 L mintKey in
                        bind_err (isValidPublicKey L mint) (\<lambda>valid.
                        if \<not> valid then Inr None else Inr (Some mint))))
               (\<lambda>error. Inr None))
          (\<lambda>mint_result. case mint_result of None \<Rightarrow> Inr None | Some mint \<Rightarrow>
          bind_err
            (catch
               (let ownerBytes = Buffer_slice data 32 64;
                    allZeros = list_all (\<lambda>byte. byte = 0) (bytes ownerBytes)
                in if allZeros then Inr None
                   else bind_err (PublicKey_new (bytes ownerBytes)) (\<lambda>ownerKey.
                        let owner = toBase58 L ownerKey in
                        bind_err (isValidPublicKey L owner) (\<lambda>valid.
                        if \<not> valid then Inr None else Inr (Some owner))))
               (\<lambda>error. Inr None))
          (\<lambda>owner_result. case owner_result of None \<Rightarrow> Inr None | Some owner \<Rightarrow>
          bind_err
            (catch
               (let amountBytes = Buffer_slice data 64 72 in
                bind_err (DataView (buffer amountBytes) (byteOffset amountBytes) 8) (\<lambda>view.
                bind_err (getBigInt64 view 0) (\<lambda>amount. Inr (Some amount))))
               (\<lambda>error. Inr None))
          (\<lambda>amount_result. case amount_result of None \<Rightarrow> Inr None | Some amount \<Rightarrow>
          let decimals = unat (bytes data ! 72)
          in Inr (Some \<lparr>ta_mint = mint, ta_owner = owner, ta_amount = amount,
                        ta_decimals = decimals,
                        ta_uiAmount =
                          double_div (Number_BigInt amount)
                            (Math_pow L 10 (real decimals))\<rparr>)))))
       (\<lambda>error. Inr None)"

section \<open>The account layout of the specification\<close>

text \<open>
  The specification's table of the domain record: 8 bytes of discriminant, 32 bytes of
  owner, a 4-byte little-endian name length and the name, two 8-byte little-endian signed
  integers (\<open>registeredAt\<close>, \<open>expiresAt\<close>), one byte for \<open>active\<close>, a 4-byte little-endian
  metadata length and the metadata.
\<close>

fun le_bytes :: "nat \<Rightarrow> nat \<Rightarrow> byte list" where
  "le_bytes 0 v = []"
| "le_bytes (Suc k) v = of_nat v # le_bytes k (v div 0x100)"

definition domain_account_layout ::
  "byte list \<Rightarrow> byte list \<Rightarrow> byte list \<Rightarrow> 64 word \<Rightarrow> 64 word \<Rightarrow> byte \<Rightarrow> byte list \<Rightarrow> byte list" where
  "domain_account_layout discriminant ownerBytes nameBytes registeredAt expiresAt activeByte
       metadataBytes =
     discriminant @ ownerBytes @ le_bytes 4 (length nameBytes) @ nameBytes @
     le_bytes 8 (unat registeredAt) @ le_bytes 8 (unat expiresAt) @ [activeByte] @
     le_bytes 4 (length metadataBytes) @ metadataBytes"

text \<open>
  A string that is well formed UTF-16: every surrogate belongs to a pair of a lead and a
  trail surrogate.
\<close>

fun well_formed :: "jsstring \<Rightarrow> bool" where
  "well_formed [] = True"
| "well_formed [c] = (\<not> is_lead c \<and> \<not> is_trail c)"
| "well_formed (c # d # cs) =
     (if is_lead c then is_trail d \<and> well_formed cs
      else \<not> is_trail c \<and> well_formed (d # cs))"

text \<open>A Unicode scalar value: a code point that is not a surrogate.\<close>

definition scalar :: "nat \<Rightarrow> bool" where
  "scalar cp \<longleftrightarrow> cp < 0x110000 \<and> \<not> (0xD800 \<le> cp \<and> cp \<le> 0xDFFF)"

section \<open>An example configuration\<close>

text \<open>
  A stand-in for the library on which the builders can be run: seeds longer than 32 bytes
  are refused as the Solana library refuses them, the address is the number of the
  concatenated seeds added to the program identifier, and the bump is 255. The keys of
  strings are the numbers of their code units. The base-58 strings are known for the two
  keys of the example token account below, and empty for every other key. The power, which
  the code takes at whole exponents only, is the double nearest to the real power.
\<close>

definition example_findProgramAddressSync ::
  "byte list list \<Rightarrow> PublicKey \<Rightarrow> error + (PublicKey \<times> nat)" where
  "example_findProgramAddressSync seeds pid =
     (if list_all (\<lambda>s. length s \<le> 32) seeds
      then Inr (of_nat (BN (concat seeds)) + pid, 255)
      else Inl TypeError)"

definition example_toBase58 :: "PublicKey \<Rightarrow> jsstring" where
  "example_toBase58 k =
     (if k = 0xC6FA7AF3BEDBAD3A3D65F36AABC97431B1BBE4C2D2F6E0E47CA60203452F5D61
      then ascii ''EPjFWdd5AufqSSqeM2qN1xzybapC8G4wEGGkZwyTDt1v''
      else if k = 0x7E8C088760BFDE1DDDCF32C17F209B8242EE52AAF131FACD88D0EA2C6D0B06F2
      then ascii ''9WzDXwBbmkg8ZTbNMqUxvQRAyrZzDsGYdLVL9zYtAWWM''
      else [])"

definition example_lib :: lib where
  "example_lib =
     \<lparr>CARV_DOMAIN_PROGRAM_ID = 0x0B0B,
      treasuryWallet = ascii ''T'',
      findProgramAddressSync = example_findProgramAddressSync,
      PublicKey_fromString = (\<lambda>s. if s = [] then Inl Error else Inr (of_nat (BN (map ucast s)))),
      toBase58 = example_toBase58,
      Math_pow = (\<lambda>b e. double_round (b powi \<lfloor>e\<rfloor>))\<rparr>"

definition example_connection :: Connection where
  "example_connection =
     \<lparr>getSlot = Inr 1,
      getAccountInfo = (\<lambda>k. Inr None),
      getLatestBlockhash = Inr (ascii ''H'')\<rparr>"

text \<open>
  Connections for the directory operations: one on which the account of the name \<open>alice\<close>
  holds a record owned by the key 7 that expires at second 1731536000, one on which every
  account exists with no bytes, and one whose account fetch fails.
\<close>

definition example_account :: AccountInfo where
  "example_account =
     \<lparr>ai_data = Buffer_from (domain_account_layout [1, 2, 3, 4, 5, 6, 7, 8] (toBuffer 7)
          [0x61, 0x6c, 0x69, 0x63, 0x65] 1700000000 1731536000 1 [0x68, 0x69]),
      ai_owner = 0x0B0B, ai_lamports = 1, ai_executable = False\<rparr>"

definition example_connection_registered :: Connection where
  "example_connection_registered =
     \<lparr>getSlot = Inr 1,
      getAccountInfo =
        (\<lambda>k. if k = 0x646F6D61696E616C696E70 then Inr (Some example_account)
             else Inr None),
      getLatestBlockhash = Inr (ascii ''H'')\<rparr>"

definition example_connection_corrupt :: Connection where
  "example_connection_corrupt =
     \<lparr>getSlot = Inr 1,
      getAccountInfo =
        (\<lambda>k. Inr (Some \<lparr>ai_data = Buffer_from [], ai_owner = 0, ai_lamports = 1,
                          ai_executable = False\<rparr>)),
      getLatestBlockhash = Inr (ascii ''H'')\<rparr>"

definition example_connection_down :: Connection where
  "example_connection_down =
     \<lparr>getSlot = Inr 1,
      getAccountInfo = (\<lambda>k. Inl Error),
      getLatestBlockhash = Inr (ascii ''H'')\<rparr>"

text \<open>
  A token account of 82 bytes: mint \<open>EPjFWdd5AufqSSqeM2qN1xzybapC8G4wEGGkZwyTDt1v\<close>, owner
  \<open>9WzDXwBbmkg8ZTbNMqUxvQRAyrZzDsGYdLVL9zYtAWWM\<close>, amount 1500000, decimals 6.
\<close>

definition example_token_bytes :: "byte list" where
  "example_token_bytes =
     [198, 250, 122, 243, 190, 219, 173, 58, 61, 101, 243, 106, 171, 201, 116, 49,
      177, 187, 228, 194, 210, 246, 224, 228, 124, 166, 2, 3, 69, 47, 93, 97] @
     [126, 140, 8, 135, 96, 191, 222, 29, 221, 207, 50, 193, 127, 32, 155, 130,
      66, 238, 82, 170, 241, 49, 250, 205, 136, 208, 234, 44, 109, 11, 6, 242] @
     [0x60, 0xE3, 0x16, 0, 0, 0, 0, 0] @ [6] @ [0, 0, 0, 0, 0, 0, 0, 0, 0]"

text \<open>The same account with the amount \<open>2 ^ 53 + 1\<close> (9007199254740993) and decimals 0.\<close>

definition example_token_bytes_large :: "byte list" where
  "example_token_bytes_large =
     take 64 example_token_bytes @ [1, 0, 0, 0, 0, 0, 0x20, 0] @ [0] @
     [0, 0, 0, 0, 0, 0, 0, 0, 0]"

section \<open>Numbers and keys as bytes\<close>

lemma unat_byte_of_nat: "unat (of_nat n :: byte) = n mod 256"
  by (simp add: unat_of_nat)

lemma le4_decomp:
  fixes v :: nat
  assumes "v < 2 ^ 32"
  shows "v mod 256 + 256 * (v div 256 mod 256) + 65536 * (v div 65536 mod 256)
           + 16777216 * (v div 16777216 mod 256) = v"
proof -
  define x where "x = v div 256"
  define y where "y = x div 256"
  define z where "z = y div 256"
  have a: "v div 65536 = y" "v div 16777216 = z"
    by (simp_all add: x_def y_def z_def div_mult2_eq [symmetric])
  have "z < 256" using assms unfolding a(2) [symmetric] by simp
  then have zz: "z mod 256 = z" by simp
  have "v = v mod 256 + 256 * x" "x = x mod 256 + 256 * y" "y = y mod 256 + 256 * z"
    by (simp_all add: x_def y_def z_def)
  then show ?thesis unfolding a zz x_def [symmetric] by linarith
qed

lemma writeUInt32LE_Inr:
  assumes "writeUInt32LE v = Inr bs"
  shows "length bs = 4 \<and> le_nat bs = v \<and> v < 2 ^ 32"
proof -
  from assms have v: "v < 2 ^ 32"
    and bs: "bs = [of_nat v, of_nat (v div 0x100), of_nat (v div 0x10000), of_nat (v div 0x1000000)]"
    by (auto simp: writeUInt32LE_def split: if_splits)
  show ?thesis using le4_decomp [OF v] v by (simp add: bs unat_byte_of_nat)
qed

lemma writeUInt32LE_fits: "v < 2 ^ 32 \<Longrightarrow> \<exists>bs. writeUInt32LE v = Inr bs"
  by (simp add: writeUInt32LE_def)

lemma length_be_bytes: "length (be_bytes k v) = k"
  by (induction k arbitrary: v) auto

lemma length_toBuffer: "length (toBuffer k) = 32"
  by (simp add: toBuffer_def length_be_bytes)

lemma BN_snoc: "BN (bs @ [b]) = BN bs * 256 + unat b"
  by (simp add: BN_def)

lemma BN_be_bytes: "BN (be_bytes k v) = v mod 256 ^ k"
proof (induction k arbitrary: v)
  case 0
  show ?case by (simp add: BN_def)
next
  case (Suc k)
  have "BN (be_bytes (Suc k) v) = (v div 256) mod 256 ^ k * 256 + v mod 256"
    by (simp add: BN_snoc Suc unat_byte_of_nat)
  also have "\<dots> = v mod 256 ^ Suc k"
    by (simp add: mod_mult2_eq mult.commute)
  finally show ?case .
qed

lemma BN_toBuffer: "BN (toBuffer k) = unat k"
proof -
  have "unat k < 2 ^ 256" using unsigned_less [of k] by simp
  then have "unat k mod 256 ^ 32 = unat k" by simp
  then show ?thesis by (simp add: toBuffer_def BN_be_bytes)
qed

lemma PublicKey_new_toBuffer: "PublicKey_new (toBuffer k) = Inr k"
  using unsigned_less [of k] by (simp add: PublicKey_new_def BN_toBuffer)

lemma BN_bound: "BN bs < 256 ^ length bs"
proof (induction bs rule: rev_induct)
  case Nil
  show ?case by (simp add: BN_def)
next
  case (snoc b bs)
  have "unat b < 256" using unsigned_less [of b] by simp
  with snoc show ?case by (simp add: BN_snoc) 
qed

lemma be_bytes_BN: "be_bytes (length bs) (BN bs) = bs"
proof (induction bs rule: rev_induct)
  case Nil
  show ?case by simp
next
  case (snoc b bs)
  have b: "unat b < 256" using unsigned_less [of b] by simp
  then have "(BN bs * 256 + unat b) div 256 = BN bs" by simp
  moreover have "(of_nat (BN bs * 256 + unat b) :: byte) = b"
    unfolding word_unat_eq_iff unat_byte_of_nat using b by simp
  ultimately show ?case using snoc by (simp add: BN_snoc)
qed

lemma toBuffer_PublicKey_new:
  assumes "length bs = 32"
  shows "\<exists>k. PublicKey_new bs = Inr k \<and> toBuffer k = bs"
proof -
  have lt: "BN bs < 2 ^ 256" using BN_bound [of bs] assms by simp
  then have "unat (of_nat (BN bs) :: PublicKey) = BN bs"
    by (simp add: unat_of_nat)
  then have "toBuffer (of_nat (BN bs)) = bs"
    using be_bytes_BN [of bs] assms by (simp add: toBuffer_def)
  with lt show ?thesis by (simp add: PublicKey_new_def)
qed

section \<open>The example configuration, evaluated\<close>

lemma utf8_alice: "Buffer_from_utf8 (ascii ''alice'') = [0x61, 0x6c, 0x69, 0x63, 0x65]"
  by (simp add: Buffer_from_utf8_def ascii_def is_lead_def is_trail_def utf8_bytes_def)

lemma utf8_domain: "Buffer_from_utf8 (ascii ''domain'') = [0x64, 0x6f, 0x6d, 0x61, 0x69, 0x6e]"
  by (simp add: Buffer_from_utf8_def ascii_def is_lead_def is_trail_def utf8_bytes_def)

lemma utf8_hi: "Buffer_from_utf8 (ascii ''hi'') = [0x68, 0x69]"
  by (simp add: Buffer_from_utf8_def ascii_def is_lead_def is_trail_def utf8_bytes_def)

lemma example_lib_simps:
  "CARV_DOMAIN_PROGRAM_ID example_lib = 0x0B0B"
  "treasuryWallet example_lib = ascii ''T''"
  "findProgramAddressSync example_lib = example_findProgramAddressSync"
  by (simp_all add: example_lib_def)

lemma example_pda_alice:
  "getDomainPDA example_lib (ascii ''alice'') = Inr (0x646F6D61696E616C696E70, 255)"
  by (simp add: getDomainPDA_def utf8_alice utf8_domain example_lib_simps
      example_findProgramAddressSync_def BN_def)

section \<open>Instruction data: set_data\<close>

text \<open>
  Claim C2, as the code has it: for every metadata string, the data of a set_data
  instruction is the 8-byte discriminator \<open>df725b88c54e9999\<close>, then a 4-byte little-endian
  length equal to the byte length of the UTF-8 encoding of the metadata, then those UTF-8
  bytes. This holds for the instruction of \<open>createSetDataInstruction\<close> and for the one
  inside the transaction of \<open>createSetDataTransaction\<close>. (The sixth byte of the
  discriminator is \<open>4e\<close>, not \<open>9e\<close>.)
\<close>

theorem set_data_instruction_data:
  "(createSetDataInstruction L name owner data = Inr ix \<longrightarrow>
      (\<exists>dataLen. ix_data ix =
          [0xdf, 0x72, 0x5b, 0x88, 0xc5, 0x4e, 0x99, 0x99] @ dataLen @ Buffer_from_utf8 data
        \<and> length dataLen = 4 \<and> le_nat dataLen = length (Buffer_from_utf8 data)))
   \<and> (createSetDataTransaction L C name owner data = Inr tx \<longrightarrow>
      (\<exists>ix' dataLen. tx_instructions tx = [ix'] \<and> ix_data ix' =
          [0xdf, 0x72, 0x5b, 0x88, 0xc5, 0x4e, 0x99, 0x99] @ dataLen @ Buffer_from_utf8 data
        \<and> length dataLen = 4 \<and> le_nat dataLen = length (Buffer_from_utf8 data)))"
  by (auto simp: createSetDataInstruction_def createSetDataTransaction_def bind_err_def Let_def
      split: sum.splits prod.splits dest!: writeUInt32LE_Inr)

lemma example_set_data:
  "createSetDataInstruction example_lib (ascii ''alice'') 7 (ascii ''hi'') =
     Inr \<lparr>ix_keys = [\<lparr>pubkey = 0x646F6D61696E616C696E70, isSigner = False, isWritable = True\<rparr>,
                     \<lparr>pubkey = 7, isSigner = True, isWritable = False\<rparr>],
          ix_programId = 0x0B0B,
          ix_data = [0xdf, 0x72, 0x5b, 0x88, 0xc5, 0x4e, 0x99, 0x99, 2, 0, 0, 0, 0x68, 0x69]\<rparr>"
  by (simp add: createSetDataInstruction_def example_pda_alice utf8_hi bind_err_def
      writeUInt32LE_def example_lib_simps)

theorem set_data_instruction_data_witness:
  "\<exists>ix dataLen. createSetDataInstruction example_lib (ascii ''alice'') 7 (ascii ''hi'') = Inr ix
     \<and> ix_data ix = [0xdf, 0x72, 0x5b, 0x88, 0xc5, 0x4e, 0x99, 0x99] @ dataLen @ [0x68, 0x69]
     \<and> length dataLen = 4 \<and> le_nat dataLen = 2"
  using set_data_instruction_data [of example_lib "ascii ''alice''" 7 "ascii ''hi''"]
    example_set_data
  by (simp add: utf8_hi)

text \<open>
  Claim C2 as written names the discriminator \<open>df725b88c59e9999\<close>. The instruction built
  for the name \<open>alice\<close> and the metadata \<open>hi\<close> starts with \<open>df725b88c54e9999\<close>.
\<close>

theorem set_data_discriminator_counterexample:
  "map_sum id ix_data (createSetDataInstruction example_lib (ascii ''alice'') 7 (ascii ''hi''))
     = Inr [0xdf, 0x72, 0x5b, 0x88, 0xc5, 0x4e, 0x99, 0x99, 2, 0, 0, 0, 0x68, 0x69]
   \<and> map_sum id ix_data (createSetDataInstruction example_lib (ascii ''alice'') 7 (ascii ''hi''))
     \<noteq> Inr ([0xdf, 0x72, 0x5b, 0x88, 0xc5, 0x9e, 0x99, 0x99] @ [2, 0, 0, 0] @ [0x68, 0x69])"
  by (simp add: example_set_data)

lemma ascii_T: "ascii ''T'' = [0x54]"
  by (simp add: ascii_def)

lemma example_treasury: "treasury_of example_lib None = Inr 0x54"
  by (simp add: treasury_of_def example_lib_def ascii_T BN_def)

lemma example_blockhash: "getLatestBlockhash example_connection = Inr (ascii ''H'')"
  by (simp add: example_connection_def)

section \<open>Address derivation\<close>

text \<open>
  Claim C1: for every domain name, \<open>getDomainPDA\<close> derives the address from exactly the
  two seeds \<open>"domain"\<close> and the UTF-8 bytes of the name, with no normalisation of the name;
  and the derivation is deterministic: the same name bytes with the same program identifier
  (and the same derivation function of the library) give the same address and bump.
\<close>

theorem getDomainPDA_seeds:
  "getDomainPDA L name =
     findProgramAddressSync L [[0x64, 0x6f, 0x6d, 0x61, 0x69, 0x6e], Buffer_from_utf8 name]
       (CARV_DOMAIN_PROGRAM_ID L)
   \<and> (\<forall>L' name'. findProgramAddressSync L' = findProgramAddressSync L
          \<and> CARV_DOMAIN_PROGRAM_ID L' = CARV_DOMAIN_PROGRAM_ID L
          \<and> Buffer_from_utf8 name' = Buffer_from_utf8 name
        \<longrightarrow> getDomainPDA L' name' = getDomainPDA L name)"
  by (simp add: getDomainPDA_def utf8_domain)

lemma utf8_Alice_carv: "Buffer_from_utf8 (ascii '' Alice.CARV'') =
    [0x20, 0x41, 0x6c, 0x69, 0x63, 0x65, 0x2e, 0x43, 0x41, 0x52, 0x56]"
  by (simp add: Buffer_from_utf8_def ascii_def is_lead_def is_trail_def utf8_bytes_def)

theorem getDomainPDA_seeds_witness:
  "getDomainPDA example_lib (ascii '' Alice.CARV'') =
     example_findProgramAddressSync
       [[0x64, 0x6f, 0x6d, 0x61, 0x69, 0x6e],
        [0x20, 0x41, 0x6c, 0x69, 0x63, 0x65, 0x2e, 0x43, 0x41, 0x52, 0x56]] 0x0B0B
   \<and> getDomainPDA (example_lib\<lparr>treasuryWallet := []\<rparr>) (ascii '' Alice.CARV'') =
       getDomainPDA example_lib (ascii '' Alice.CARV'')"
  using getDomainPDA_seeds [of example_lib "ascii '' Alice.CARV''"]
  by (simp add: utf8_Alice_carv example_lib_simps)

section \<open>Instruction data: register, renew, transfer\<close>

text \<open>
  Claim C3: for every name and every new owner, the data of the register instruction is
  the discriminator \<open>d37c430fd3c2b2f0\<close>, a 4-byte little-endian length equal to the byte
  length of the UTF-8 name, and the name bytes; the data of the renew instruction is exactly
  the discriminator \<open>2bef0f2e1b07a349\<close>; the data of the transfer instruction is the
  discriminator \<open>a334c8e78c0345ba\<close> followed by the 32 bytes of the new owner.
\<close>

theorem register_renew_transfer_data:
  "(createRegisterTransaction L C name owner treasuryWalletParam = Inr tx1 \<longrightarrow>
      (\<exists>ix nameLen. tx_instructions tx1 = [ix]
         \<and> ix_data ix = [0xd3, 0x7c, 0x43, 0x0f, 0xd3, 0xc2, 0xb2, 0xf0] @ nameLen @ Buffer_from_utf8 name
         \<and> length nameLen = 4 \<and> le_nat nameLen = length (Buffer_from_utf8 name)))
   \<and> (createRenewTransaction L C name owner treasuryWalletParam = Inr tx2 \<longrightarrow>
      (\<exists>ix. tx_instructions tx2 = [ix]
         \<and> ix_data ix = [0x2b, 0xef, 0x0f, 0x2e, 0x1b, 0x07, 0xa3, 0x49]))
   \<and> (createTransferTransaction L C name owner newOwner = Inr tx3 \<longrightarrow>
      (\<exists>ix. tx_instructions tx3 = [ix]
         \<and> ix_data ix = [0xa3, 0x34, 0xc8, 0xe7, 0x8c, 0x03, 0x45, 0xba] @ toBuffer newOwner
         \<and> length (toBuffer newOwner) = 32 \<and> PublicKey_new (toBuffer newOwner) = Inr newOwner))"
proof (intro conjI impI)
  assume "createRegisterTransaction L C name owner treasuryWalletParam = Inr tx1"
  then show "\<exists>ix nameLen. tx_instructions tx1 = [ix]
         \<and> ix_data ix = [0xd3, 0x7c, 0x43, 0x0f, 0xd3, 0xc2, 0xb2, 0xf0] @ nameLen @ Buffer_from_utf8 name
         \<and> length nameLen = 4 \<and> le_nat nameLen = length (Buffer_from_utf8 name)"
    by (auto simp: createRegisterTransaction_def bind_err_def Let_def
        split: sum.splits prod.splits dest!: writeUInt32LE_Inr)
next
  assume "createRenewTransaction L C name owner treasuryWalletParam = Inr tx2"
  then show "\<exists>ix. tx_instructions tx2 = [ix]
         \<and> ix_data ix = [0x2b, 0xef, 0x0f, 0x2e, 0x1b, 0x07, 0xa3, 0x49]"
    by (auto simp: createRenewTransaction_def bind_err_def Let_def
        split: sum.splits prod.splits)
next
  assume "createTransferTransaction L C name owner newOwner = Inr tx3"
  then show "\<exists>ix. tx_instructions tx3 = [ix]
         \<and> ix_data ix = [0xa3, 0x34, 0xc8, 0xe7, 0x8c, 0x03, 0x45, 0xba] @ toBuffer newOwner
         \<and> length (toBuffer newOwner) = 32 \<and> PublicKey_new (toBuffer newOwner) = Inr newOwner"
    by (auto simp: createTransferTransaction_def bind_err_def Let_def length_toBuffer
        PublicKey_new_toBuffer split: sum.splits prod.splits)
qed

lemma example_register:
  "createRegisterTransaction example_lib example_connection (ascii ''alice'') 7 None =
     Inr \<lparr>tx_feePayer = 7,
          tx_instructions =
            [\<lparr>ix_keys = [\<lparr>pubkey = 0x646F6D61696E616C696E70, isSigner = False, isWritable = True\<rparr>,
                         \<lparr>pubkey = 7, isSigner = True, isWritable = True\<rparr>,
                         \<lparr>pubkey = 0x54, isSigner = False, isWritable = True\<rparr>,
                         \<lparr>pubkey = 0, isSigner = False, isWritable = False\<rparr>],
              ix_programId = 0x0B0B,
              ix_data = [0xd3, 0x7c, 0x43, 0x0f, 0xd3, 0xc2, 0xb2, 0xf0, 5, 0, 0, 0,
                         0x61, 0x6c, 0x69, 0x63, 0x65]\<rparr>],
          tx_recentBlockhash = ascii ''H''\<rparr>"
  by (simp add: createRegisterTransaction_def example_pda_alice example_treasury utf8_alice
      bind_err_def writeUInt32LE_def example_lib_simps example_blockhash
      SystemProgram_programId_def)

lemma example_renew:
  "createRenewTransaction example_lib example_connection (ascii ''alice'') 7 None =
     Inr \<lparr>tx_feePayer = 7,
          tx_instructions =
            [\<lparr>ix_keys = [\<lparr>pubkey = 0x646F6D61696E616C696E70, isSigner = False, isWritable = True\<rparr>,
                         \<lparr>pubkey = 7, isSigner = True, isWritable = True\<rparr>,
                         \<lparr>pubkey = 0x54, isSigner = False, isWritable = True\<rparr>,
                         \<lparr>pubkey = 0, isSigner = False, isWritable = False\<rparr>],
              ix_programId = 0x0B0B,
              ix_data = [0x2b, 0xef, 0x0f, 0x2e, 0x1b, 0x07, 0xa3, 0x49]\<rparr>],
          tx_recentBlockhash = ascii ''H''\<rparr>"
  by (simp add: createRenewTransaction_def example_pda_alice example_treasury
      bind_err_def example_lib_simps example_blockhash SystemProgram_programId_def)

lemma example_transfer:
  "createTransferTransaction example_lib example_connection (ascii ''alice'') 7 9 =
     Inr \<lparr>tx_feePayer = 7,
          tx_instructions =
            [\<lparr>ix_keys = [\<lparr>pubkey = 0x646F6D61696E616C696E70, isSigner = False, isWritable = True\<rparr>,
                         \<lparr>pubkey = 7, isSigner = True, isWritable = False\<rparr>],
              ix_programId = 0x0B0B,
              ix_data = [0xa3, 0x34, 0xc8, 0xe7, 0x8c, 0x03, 0x45, 0xba] @ toBuffer 9\<rparr>],
          tx_recentBlockhash = ascii ''H''\<rparr>"
  by (simp add: createTransferTransaction_def example_pda_alice
      bind_err_def example_lib_simps example_blockhash)

lemma example_set_data_tx:
  "createSetDataTransaction example_lib example_connection (ascii ''alice'') 7 (ascii ''hi'') =
     Inr \<lparr>tx_feePayer = 7,
          tx_instructions =
            [\<lparr>ix_keys = [\<lparr>pubkey = 0x646F6D61696E616C696E70, isSigner = False, isWritable = True\<rparr>,
                         \<lparr>pubkey = 7, isSigner = True, isWritable = False\<rparr>],
              ix_programId = 0x0B0B,
              ix_data = [0xdf, 0x72, 0x5b, 0x88, 0xc5, 0x4e, 0x99, 0x99, 2, 0, 0, 0, 0x68, 0x69]\<rparr>],
          tx_recentBlockhash = ascii ''H''\<rparr>"
  by (simp add: createSetDataTransaction_def example_pda_alice utf8_hi
      bind_err_def writeUInt32LE_def example_lib_simps example_blockhash)

theorem register_renew_transfer_data_witness:
  "(\<exists>tx ix. createRegisterTransaction example_lib example_connection (ascii ''alice'') 7 None = Inr tx
      \<and> tx_instructions tx = [ix]
      \<and> ix_data ix = [0xd3, 0x7c, 0x43, 0x0f, 0xd3, 0xc2, 0xb2, 0xf0, 5, 0, 0, 0,
                       0x61, 0x6c, 0x69, 0x63, 0x65])
   \<and> (\<exists>tx ix. createRenewTransaction example_lib example_connection (ascii ''alice'') 7 None = Inr tx
      \<and> tx_instructions tx = [ix]
      \<and> ix_data ix = [0x2b, 0xef, 0x0f, 0x2e, 0x1b, 0x07, 0xa3, 0x49])
   \<and> (\<exists>tx ix. createTransferTransaction example_lib example_connection (ascii ''alice'') 7 9 = Inr tx
      \<and> tx_instructions tx = [ix]
      \<and> take 8 (ix_data ix) = [0xa3, 0x34, 0xc8, 0xe7, 0x8c, 0x03, 0x45, 0xba]
      \<and> drop 8 (ix_data ix) = toBuffer 9 \<and> length (ix_data ix) = 40)"
proof -
  obtain tx1 where e1:
    "createRegisterTransaction example_lib example_connection (ascii ''alice'') 7 None = Inr tx1"
    using example_register by blast
  obtain tx2 where e2:
    "createRenewTransaction example_lib example_connection (ascii ''alice'') 7 None = Inr tx2"
    using example_renew by blast
  obtain tx3 where e3:
    "createTransferTransaction example_lib example_connection (ascii ''alice'') 7 9 = Inr tx3"
    using example_transfer by blast
  from register_renew_transfer_data
    [of example_lib example_connection "ascii ''alice''" 7 None tx1 tx2 9 tx3] e1 e2 e3
  have "\<exists>ix nameLen. tx_instructions tx1 = [ix]
         \<and> ix_data ix = [0xd3, 0x7c, 0x43, 0x0f, 0xd3, 0xc2, 0xb2, 0xf0] @ nameLen
             @ Buffer_from_utf8 (ascii ''alice'')
         \<and> length nameLen = 4 \<and> le_nat nameLen = length (Buffer_from_utf8 (ascii ''alice''))"
    and "\<exists>ix. tx_instructions tx2 = [ix]
         \<and> ix_data ix = [0x2b, 0xef, 0x0f, 0x2e, 0x1b, 0x07, 0xa3, 0x49]"
    and "\<exists>ix. tx_instructions tx3 = [ix]
         \<and> ix_data ix = [0xa3, 0x34, 0xc8, 0xe7, 0x8c, 0x03, 0x45, 0xba] @ toBuffer 9
         \<and> length (toBuffer 9) = 32 \<and> PublicKey_new (toBuffer 9) = Inr 9"
    by simp_all
  then show ?thesis
    using e1 e2 e3 example_register example_renew example_transfer by auto
qed

section \<open>Account roles\<close>

text \<open>
  Claim C8: every built transaction lists its accounts in the order and with the flags of
  the specification: register and renew use the domain address (writable, not signer), the
  owner (signer, writable), the treasury (writable) and the system program (read-only);
  transfer and set_data use the domain address (writable, not signer) and the owner
  (signer).
\<close>

theorem account_roles:
  "(createRegisterTransaction L C name owner treasuryWalletParam = Inr tx1 \<longrightarrow>
      (\<exists>domainPDA bump treasury. getDomainPDA L name = Inr (domainPDA, bump)
         \<and> treasury_of L treasuryWalletParam = Inr treasury
         \<and> map ix_keys (tx_instructions tx1) =
             [[\<lparr>pubkey = domainPDA, isSigner = False, isWritable = True\<rparr>,
               \<lparr>pubkey = owner, isSigner = True, isWritable = True\<rparr>,
               \<lparr>pubkey = treasury, isSigner = False, isWritable = True\<rparr>,
               \<lparr>pubkey = SystemProgram_programId, isSigner = False, isWritable = False\<rparr>]]))
   \<and> (createRenewTransaction L C name owner treasuryWalletParam = Inr tx2 \<longrightarrow>
      (\<exists>domainPDA bump treasury. getDomainPDA L name = Inr (domainPDA, bump)
         \<and> treasury_of L treasuryWalletParam = Inr treasury
         \<and> map ix_keys (tx_instructions tx2) =
             [[\<lparr>pubkey = domainPDA, isSigner = False, isWritable = True\<rparr>,
               \<lparr>pubkey = owner, isSigner = True, isWritable = True\<rparr>,
               \<lparr>pubkey = treasury, isSigner = False, isWritable = True\<rparr>,
               \<lparr>pubkey = SystemProgram_programId, isSigner = False, isWritable = False\<rparr>]]))
   \<and> (createTransferTransaction L C name owner newOwner = Inr tx3 \<longrightarrow>
      (\<exists>domainPDA bump. getDomainPDA L name = Inr (domainPDA, bump)
         \<and> map ix_keys (tx_instructions tx3) =
             [[\<lparr>pubkey = domainPDA, isSigner = False, isWritable = True\<rparr>,
               \<lparr>pubkey = owner, isSigner = True, isWritable = False\<rparr>]]))
   \<and> (createSetDataTransaction L C name owner data = Inr tx4 \<longrightarrow>
      (\<exists>domainPDA bump. getDomainPDA L name = Inr (domainPDA, bump)
         \<and> map ix_keys (tx_instructions tx4) =
             [[\<lparr>pubkey = domainPDA, isSigner = False, isWritable = True\<rparr>,
               \<lparr>pubkey = owner, isSigner = True, isWritable = False\<rparr>]]))"
proof (intro conjI impI)
  assume "createRegisterTransaction L C name owner treasuryWalletParam = Inr tx1"
  then show "\<exists>domainPDA bump treasury. getDomainPDA L name = Inr (domainPDA, bump)
         \<and> treasury_of L treasuryWalletParam = Inr treasury
         \<and> map ix_keys (tx_instructions tx1) =
             [[\<lparr>pubkey = domainPDA, isSigner = False, isWritable = True\<rparr>,
               \<lparr>pubkey = owner, isSigner = True, isWritable = True\<rparr>,
               \<lparr>pubkey = treasury, isSigner = False, isWritable = True\<rparr>,
               \<lparr>pubkey = SystemProgram_programId, isSigner = False, isWritable = False\<rparr>]]"
    by (auto simp: createRegisterTransaction_def bind_err_def Let_def
        split: sum.splits prod.splits)
next
  assume "createRenewTransaction L C name owner treasuryWalletParam = Inr tx2"
  then show "\<exists>domainPDA bump treasury. getDomainPDA L name = Inr (domainPDA, bump)
         \<and> treasury_of L treasuryWalletParam = Inr treasury
         \<and> map ix_keys (tx_instructions tx2) =
             [[\<lparr>pubkey = domainPDA, isSigner = False, isWritable = True\<rparr>,
               \<lparr>pubkey = owner, isSigner = True, isWritable = True\<rparr>,
               \<lparr>pubkey = treasury, isSigner = False, isWritable = True\<rparr>,
               \<lparr>pubkey = SystemProgram_programId, isSigner = False, isWritable = False\<rparr>]]"
    by (auto simp: createRenewTransaction_def bind_err_def Let_def
        split: sum.splits prod.splits)
next
  assume "createTransferTransaction L C name owner newOwner = Inr tx3"
  then show "\<exists>domainPDA bump. getDomainPDA L name = Inr (domainPDA, bump)
         \<and> map ix_keys (tx_instructions tx3) =
             [[\<lparr>pubkey = domainPDA, isSigner = False, isWritable = True\<rparr>,
               \<lparr>pubkey = owner, isSigner = True, isWritable = False\<rparr>]]"
    by (auto simp: createTransferTransaction_def bind_err_def Let_def
        split: sum.splits prod.splits)
next
  assume "createSetDataTransaction L C name owner data = Inr tx4"
  then show "\<exists>domainPDA bump. getDomainPDA L name = Inr (domainPDA, bump)
         \<and> map ix_keys (tx_instructions tx4) =
             [[\<lparr>pubkey = domainPDA, isSigner = False, isWritable = True\<rparr>,
               \<lparr>pubkey = owner, isSigner = True, isWritable = False\<rparr>]]"
    by (auto simp: createSetDataTransaction_def bind_err_def Let_def
        split: sum.splits prod.splits)
qed

theorem account_roles_witness:
  "(\<exists>tx. createRegisterTransaction example_lib example_connection (ascii ''alice'') 7 None = Inr tx
      \<and> map ix_keys (tx_instructions tx) =
          [[\<lparr>pubkey = 0x646F6D61696E616C696E70, isSigner = False, isWritable = True\<rparr>,
            \<lparr>pubkey = 7, isSigner = True, isWritable = True\<rparr>,
            \<lparr>pubkey = 0x54, isSigner = False, isWritable = True\<rparr>,
            \<lparr>pubkey = 0, isSigner = False, isWritable = False\<rparr>]])
   \<and> (\<exists>tx. createRenewTransaction example_lib example_connection (ascii ''alice'') 7 None = Inr tx
      \<and> map ix_keys (tx_instructions tx) =
          [[\<lparr>pubkey = 0x646F6D61696E616C696E70, isSigner = False, isWritable = True\<rparr>,
            \<lparr>pubkey = 7, isSigner = True, isWritable = True\<rparr>,
            \<lparr>pubkey = 0x54, isSigner = False, isWritable = True\<rparr>,
            \<lparr>pubkey = 0, isSigner = False, isWritable = False\<rparr>]])
   \<and> (\<exists>tx. createTransferTransaction example_lib example_connection (ascii ''alice'') 7 9 = Inr tx
      \<and> map ix_keys (tx_instructions tx) =
          [[\<lparr>pubkey = 0x646F6D61696E616C696E70, isSigner = False, isWritable = True\<rparr>,
            \<lparr>pubkey = 7, isSigner = True, isWritable = False\<rparr>]])
   \<and> (\<exists>tx. createSetDataTransaction example_lib example_connection (ascii ''alice'') 7 (ascii ''hi'') = Inr tx
      \<and> map ix_keys (tx_instructions tx) =
          [[\<lparr>pubkey = 0x646F6D61696E616C696E70, isSigner = False, isWritable = True\<rparr>,
            \<lparr>pubkey = 7, isSigner = True, isWritable = False\<rparr>]])"
proof -
  obtain tx1 where e1:
    "createRegisterTransaction example_lib example_connection (ascii ''alice'') 7 None = Inr tx1"
    using example_register by blast
  obtain tx2 where e2:
    "createRenewTransaction example_lib example_connection (ascii ''alice'') 7 None = Inr tx2"
    using example_renew by blast
  obtain tx3 where e3:
    "createTransferTransaction example_lib example_connection (ascii ''alice'') 7 9 = Inr tx3"
    using example_transfer by blast
  obtain tx4 where e4:
    "createSetDataTransaction example_lib example_connection (ascii ''alice'') 7 (ascii ''hi'')
       = Inr tx4"
    using example_set_data_tx by blast
  from account_roles
    [of example_lib example_connection "ascii ''alice''" 7 None tx1 tx2 9 tx3 "ascii ''hi''" tx4]
    e1 e2 e3 e4
  show ?thesis
    by (simp add: example_pda_alice example_treasury SystemProgram_programId_def)
qed

section \<open>The instruction builders and the transaction builders agree\<close>

lemma createRegisterTransaction_instruction:
  "createRegisterTransaction L C name owner tw =
     bind_err (createRegisterInstruction L name owner tw) (\<lambda>ix.
     bind_err (getLatestBlockhash C) (\<lambda>blockhash.
     Inr \<lparr>tx_feePayer = owner, tx_instructions = [ix], tx_recentBlockhash = blockhash\<rparr>))"
  by (simp add: createRegisterTransaction_def createRegisterInstruction_def bind_err_def Let_def
      split: sum.splits prod.splits)

lemma createRenewTransaction_instruction:
  "createRenewTransaction L C name owner tw =
     bind_err (createRenewInstruction L name owner tw) (\<lambda>ix.
     bind_err (getLatestBlockhash C) (\<lambda>blockhash.
     Inr \<lparr>tx_feePayer = owner, tx_instructions = [ix], tx_recentBlockhash = blockhash\<rparr>))"
  by (simp add: createRenewTransaction_def createRenewInstruction_def bind_err_def Let_def
      split: sum.splits prod.splits)

lemma createTransferTransaction_instruction:
  "createTransferTransaction L C name owner newOwner =
     bind_err (createTransferInstruction L name owner newOwner) (\<lambda>ix.
     bind_err (getLatestBlockhash C) (\<lambda>blockhash.
     Inr \<lparr>tx_feePayer = owner, tx_instructions = [ix], tx_recentBlockhash = blockhash\<rparr>))"
  by (simp add: createTransferTransaction_def createTransferInstruction_def bind_err_def Let_def
      split: sum.splits prod.splits)

lemma createSetDataTransaction_instruction:
  "createSetDataTransaction L C name owner data =
     bind_err (createSetDataInstruction L name owner data) (\<lambda>ix.
     bind_err (getLatestBlockhash C) (\<lambda>blockhash.
     Inr \<lparr>tx_feePayer = owner, tx_instructions = [ix], tx_recentBlockhash = blockhash\<rparr>))"
  by (simp add: createSetDataTransaction_def createSetDataInstruction_def bind_err_def Let_def
      split: sum.splits prod.splits)

text \<open>
  A builder returns a transaction exactly when the address derivation, the treasury key,
  the length prefix and the block hash are all available.
\<close>

lemma createRegisterTransaction_returns:
  "(\<exists>tx. createRegisterTransaction L C name owner tw = Inr tx) \<longleftrightarrow>
     (\<exists>p. getDomainPDA L name = Inr p) \<and> (\<exists>t. treasury_of L tw = Inr t)
     \<and> length (Buffer_from_utf8 name) < 2 ^ 32 \<and> (\<exists>h. getLatestBlockhash C = Inr h)"
  by (auto simp: createRegisterTransaction_def bind_err_def Let_def writeUInt32LE_def
      split: sum.splits prod.splits)

lemma createSetDataTransaction_returns:
  "(\<exists>tx. createSetDataTransaction L C name owner data = Inr tx) \<longleftrightarrow>
     (\<exists>p. getDomainPDA L name = Inr p)
     \<and> length (Buffer_from_utf8 data) < 2 ^ 32 \<and> (\<exists>h. getLatestBlockhash C = Inr h)"
  by (auto simp: createSetDataTransaction_def bind_err_def Let_def writeUInt32LE_def
      split: sum.splits prod.splits)

section \<open>Rounding to doubles\<close>

declare binade.simps [simp del]

lemma binade_correct:
  assumes "2 powi k \<le> a" and "a < 2 powi (k + 1)" and "\<bar>k - e\<bar> \<le> int fuel"
  shows "binade fuel e a = k"
  using assms(3)
proof (induction fuel arbitrary: e)
  case 0
  then show ?case by (simp add: binade.simps)
next
  case (Suc fuel)
  consider "a < 2 powi e" | "2 powi (e + 1) \<le> a" | "2 powi e \<le> a \<and> a < 2 powi (e + 1)"
    by linarith
  then show ?case
  proof cases
    case 1
    have "k < e"
    proof (rule ccontr)
      assume "\<not> k < e"
      then have "(2::real) powi e \<le> 2 powi k" by (intro power_int_increasing) simp_all
      with 1 assms(1) show False by linarith
    qed
    with Suc.prems have "\<bar>k - (e - 1)\<bar> \<le> int fuel" by simp
    then have "binade fuel (e - 1) a = k" by (rule Suc.IH)
    with 1 show ?thesis by (simp add: binade.simps [of "Suc fuel"])
  next
    case 2
    have n1: "\<not> a < 2 powi e"
    proof
      assume "a < 2 powi e"
      moreover have "(2::real) powi e \<le> 2 powi (e + 1)" by (intro power_int_increasing) simp_all
      ultimately show False using 2 by linarith
    qed
    have "e < k"
    proof (rule ccontr)
      assume "\<not> e < k"
      then have "(2::real) powi (k + 1) \<le> 2 powi (e + 1)"
        by (intro power_int_increasing) simp_all
      with 2 assms(2) show False by linarith
    qed
    with Suc.prems have "\<bar>k - (e + 1)\<bar> \<le> int fuel" by simp
    then have "binade fuel (e + 1) a = k" by (rule Suc.IH)
    with 2 n1 show ?thesis by (simp add: binade.simps [of "Suc fuel"])
  next
    case 3
    have "\<not> k < e"
    proof
      assume "k < e"
      then have "(2::real) powi (k + 1) \<le> 2 powi e" by (intro power_int_increasing) simp_all
      with 3 assms(2) show False by linarith
    qed
    moreover have "\<not> e < k"
    proof
      assume "e < k"
      then have "(2::real) powi (e + 1) \<le> 2 powi k" by (intro power_int_increasing) simp_all
      with 3 assms(1) show False by linarith
    qed
    ultimately have "e = k" by simp
    with 3 show ?thesis by (simp add: binade.simps [of "Suc fuel"])
  qed
qed

lemma round_half_even_int: "round_half_even (of_int k) = k"
  by (simp add: round_half_even_def)

text \<open>A number with 53 significant bits and an exponent in range is a double.\<close>

lemma double_round_representable:
  assumes "2 ^ 52 \<le> \<bar>k\<bar>" and "\<bar>k\<bar> < 2 ^ 53" and "- 1074 \<le> j" and "j \<le> 1000"
  shows "double_round (of_int k * 2 powi j) = of_int k * 2 powi j"
proof -
  let ?x = "of_int k * 2 powi j :: real"
  have k0: "k \<noteq> 0" using assms(1) by auto
  then have x0: "?x \<noteq> 0" by simp
  have ax: "\<bar>?x\<bar> = of_int \<bar>k\<bar> * 2 powi j" by (simp add: abs_mult)
  have p52: "(2::real) powi (52 + j) = 2 ^ 52 * 2 powi j"
    by (simp add: power_int_add)
  have p53: "(2::real) powi (52 + j + 1) = 2 ^ 53 * 2 powi j"
    by (simp add: power_int_add)
  have "(2::real) ^ 52 \<le> of_int \<bar>k\<bar>"
    using assms(1) by (metis of_int_le_iff of_int_numeral of_int_power)
  then have lo: "2 powi (52 + j) \<le> \<bar>?x\<bar>"
    unfolding ax p52 by (simp add: mult_right_mono)
  have "of_int \<bar>k\<bar> < (2::real) ^ 53"
    using assms(2) by (metis of_int_less_iff of_int_numeral of_int_power)
  then have hi: "\<bar>?x\<bar> < 2 powi (52 + j + 1)"
    unfolding ax p53 by (simp add: mult_strict_right_mono)
  have "\<bar>52 + j - 0\<bar> \<le> int 1100" using assms(3,4) by simp
  then have fl: "binade 1100 0 \<bar>?x\<bar> = 52 + j" by (rule binade_correct [OF lo hi])
  have e: "max (binade 1100 0 \<bar>?x\<bar> - 52) (- 1074) = j" using assms(3) by (simp add: fl)
  have q: "?x / 2 powi j = of_int k" by simp
  show ?thesis
    unfolding double_round_def Let_def e q round_half_even_int using x0 by simp
qed

lemma normalise_nat:
  fixes a :: nat
  assumes "2 ^ (52 - k) \<le> a" and "k \<le> 52" and "a < 2 ^ 53"
  shows "\<exists>n\<le>k. 2 ^ 52 \<le> a * 2 ^ n \<and> a * 2 ^ n < 2 ^ 53"
  using assms
proof (induction k)
  case 0
  then show ?case by simp
next
  case (Suc k)
  show ?case
  proof (cases "2 ^ (52 - k) \<le> a")
    case True
    with Suc obtain n where "n \<le> k" "2 ^ 52 \<le> a * 2 ^ n" "a * 2 ^ n < 2 ^ 53" by auto
    then show ?thesis by (intro exI [of _ n]) simp
  next
    case False
    then have lt: "a < 2 ^ (52 - k)" by simp
    have d: "52 - Suc k + Suc k = 52" "52 - k + Suc k = 53"
      using Suc.prems(2) by simp_all
    have "(2::nat) ^ 52 = 2 ^ (52 - Suc k) * 2 ^ Suc k"
      unfolding power_add [symmetric] d ..
    also have "\<dots> \<le> a * 2 ^ Suc k"
      by (rule mult_le_mono1 [OF Suc.prems(1)])
    finally have lo: "2 ^ 52 \<le> a * 2 ^ Suc k" .
    have "a * 2 ^ Suc k < 2 ^ (52 - k) * 2 ^ Suc k"
      by (rule mult_less_mono1 [OF lt]) simp
    also have "\<dots> = 2 ^ 53"
      unfolding power_add [symmetric] d ..
    finally have "a * 2 ^ Suc k < 2 ^ 53" .
    with lo have "2 ^ 52 \<le> a * 2 ^ Suc k \<and> a * 2 ^ Suc k < 2 ^ 53" ..
    moreover have "Suc k \<le> Suc k" ..
    ultimately show ?thesis by blast
  qed
qed

text \<open>Every integer of magnitude at most \<open>2 ^ 53\<close> is a double.\<close>

lemma Number_BigInt_exact:
  assumes "\<bar>n\<bar> \<le> 2 ^ 53"
  shows "Number_BigInt n = real_of_int n"
proof (cases "n = 0")
  case True
  then show ?thesis by (simp add: Number_BigInt_def double_round_def)
next
  case False
  show ?thesis
  proof (cases "\<bar>n\<bar> = 2 ^ 53")
    case True
    then have n: "n = 2 ^ 53 \<or> n = - (2 ^ 53)" by auto
    define k :: int where "k = n div 2"
    have k: "\<bar>k\<bar> = 2 ^ 52" "real_of_int n = of_int k * 2 powi 1"
      using n by (auto simp: k_def)
    from double_round_representable [of k 1] k show ?thesis
      by (simp add: Number_BigInt_def)
  next
    case False
    define a where "a = nat \<bar>n\<bar>"
    have a: "0 < a" "a < 2 ^ 53" "int a = \<bar>n\<bar>"
      using \<open>n \<noteq> 0\<close> False assms by (auto simp: a_def nat_less_iff)
    then have "2 ^ (52 - 52) \<le> a" by simp
    from normalise_nat [OF this _ a(2)]
    obtain m where m: "m \<le> 52" "2 ^ 52 \<le> a * 2 ^ m" "a * 2 ^ m < 2 ^ 53" by auto
    define k where "k = n * 2 ^ m"
    have "\<bar>k\<bar> = int (a * 2 ^ m)" by (simp add: k_def abs_mult a(3))
    moreover have "(2::int) ^ 52 \<le> int (a * 2 ^ m)"
      using m(2) by (metis of_nat_le_iff of_nat_numeral of_nat_power)
    moreover have "int (a * 2 ^ m) < 2 ^ 53"
      using m(3) by (metis of_nat_less_iff of_nat_numeral of_nat_power)
    ultimately have kb: "2 ^ 52 \<le> \<bar>k\<bar>" "\<bar>k\<bar> < 2 ^ 53"
      by (simp_all only:)
    have j: "- 1074 \<le> - int m" "- int m \<le> 1000" using m(1) by simp_all
    have "(2::real) powi (- int m) = 1 / 2 ^ m"
      by (simp add: power_int_minus_divide)
    then have x: "real_of_int n = of_int k * 2 powi (- int m)"
      by (simp add: k_def)
    from double_round_representable [OF kb j] show ?thesis
      unfolding Number_BigInt_def x [symmetric] .
  qed
qed

lemma double_round_int:
  "\<bar>n\<bar> \<le> 2 ^ 53 \<Longrightarrow> double_round (real_of_int n) = real_of_int n"
  using Number_BigInt_exact [of n] by (simp add: Number_BigInt_def)

text \<open>Beyond \<open>2 ^ 53\<close> integers are rounded: \<open>2 ^ 53 + 1\<close> becomes \<open>2 ^ 53\<close>.\<close>

lemma Number_BigInt_rounds: "Number_BigInt 9007199254740993 = 9007199254740992"
proof -
  have "binade 1100 0 \<bar>9007199254740993 :: real\<bar> = 53"
    by (rule binade_correct) simp_all
  then show ?thesis
    by (simp add: Number_BigInt_def double_round_def round_half_even_def)
qed

lemma double_round_three_halves: "double_round (3 / 2) = 3 / 2"
proof -
  have p: "(2::real) powi (- 52) = 1 / 4503599627370496"
    by (simp add: power_int_minus_divide)
  have e: "real_of_int 6755399441055744 * 2 powi (- 52) = 3 / 2"
    unfolding p by simp
  have "double_round (real_of_int 6755399441055744 * 2 powi (- 52))
      = real_of_int 6755399441055744 * 2 powi (- 52)"
    by (rule double_round_representable) simp_all
  then show ?thesis unfolding e .
qed

section \<open>Reading the account layout\<close>

lemma length_le_bytes: "length (le_bytes k v) = k"
  by (induction k arbitrary: v) auto

lemma le_nat_le_bytes: "le_nat (le_bytes k v) = v mod 256 ^ k"
proof (induction k arbitrary: v)
  case 0
  show ?case by simp
next
  case (Suc k)
  have "le_nat (le_bytes (Suc k) v) = v mod 256 + 256 * ((v div 256) mod 256 ^ k)"
    by (simp add: Suc unat_byte_of_nat)
  also have "\<dots> = v mod 256 ^ Suc k"
    by (simp add: mod_mult2_eq)
  finally show ?case .
qed

lemma getUint32_le_bytes: "v < 2 ^ 32 \<Longrightarrow> getUint32 (le_bytes 4 v) 0 = Inr v"
  by (simp add: getUint32_def length_le_bytes le_nat_le_bytes)

lemma getBigInt64_le_bytes: "getBigInt64 (le_bytes 8 (unat (w :: 64 word))) 0 = Inr (sint w)"
proof -
  have "unat w < 2 ^ 64" using unsigned_less [of w] by simp
  then have "unat w mod 256 ^ 8 = unat w" by simp
  then show ?thesis by (simp add: getBigInt64_def length_le_bytes le_nat_le_bytes)
qed

lemma length_bytes: "valid_view d \<Longrightarrow> length (bytes d) = len d"
  by (auto simp: valid_view_def bytes_def)

lemma bytes_slice: "bytes (Buffer_slice d s e) = drop s (take e (bytes d))"
  by (auto simp: bytes_def Buffer_slice_def Let_def drop_take min_def add.commute)

lemma DataView_view:
  assumes "valid_view d" and "off + n \<le> len d"
  shows "DataView (buffer d) (byteOffset d + off) n = Inr (take n (drop off (bytes d)))"
proof -
  have "byteOffset d + off + n \<le> length (buffer d)"
    using assms by (simp add: valid_view_def)
  moreover have "take n (drop off (bytes d)) = take n (drop (byteOffset d + off) (buffer d))"
    using assms(2) by (simp add: bytes_def drop_take add.commute min_def)
  ultimately show ?thesis by (simp add: DataView_def)
qed

lemma index_view: "i < len d \<Longrightarrow> index d i = Some (bytes d ! i)"
  by (simp add: index_def)

lemma PublicKey_new_32:
  assumes "length bs = 32"
  shows "PublicKey_new bs = Inr (of_nat (BN bs))" and "toBuffer (of_nat (BN bs)) = bs"
proof -
  have lt: "BN bs < 2 ^ 256" using BN_bound [of bs] assms by simp
  then show "PublicKey_new bs = Inr (of_nat (BN bs))" by (simp add: PublicKey_new_def)
  from lt have "unat (of_nat (BN bs) :: PublicKey) = BN bs" by (simp add: unat_of_nat)
  then show "toBuffer (of_nat (BN bs)) = bs"
    using be_bytes_BN [of bs] assms by (simp add: toBuffer_def)
qed

lemma drop_take_mid: "length pre = s \<Longrightarrow> drop s (take (s + length x) (pre @ x @ post)) = x"
  by simp

lemma parseDomainData_layout:
  assumes v: "valid_view d"
    and b: "bytes d = domain_account_layout disc ob nb r e a mb @ pad"
    and l: "length disc = 8" "length ob = 32" "length nb < 2 ^ 32" "length mb < 2 ^ 32"
  shows "parseDomainData d =
     Inr \<lparr>di_owner = Some (of_nat (BN ob)), di_name = TextDecoder_decode nb,
          di_registered = Number_BigInt (sint r), di_expires = Number_BigInt (sint e),
          di_active = (a \<noteq> 0), di_data = TextDecoder_decode mb, di_exists = True,
          di_parseError = None\<rparr>"
proof -
  define N where "N = length nb"
  define M where "M = length mb"
  have len: "len d = 65 + N + M + length pad"
    using length_bytes [OF v] l unfolding b domain_account_layout_def N_def M_def
    by (simp add: length_le_bytes)
  have B: "bytes d = disc @ ob @ le_bytes 4 N @ nb @ le_bytes 8 (unat r) @ le_bytes 8 (unat e)
      @ [a] @ le_bytes 4 M @ mb @ pad"
    unfolding b domain_account_layout_def N_def M_def by simp
  have ll: "length (le_bytes 4 N) = 4" "length (le_bytes 8 (unat r)) = 8"
    "length (le_bytes 8 (unat e)) = 8" "length (le_bytes 4 M) = 4" "length nb = N" "length mb = M"
    by (simp_all add: length_le_bytes N_def M_def)
  have f1: "bytes (Buffer_slice d 8 40) = ob"
    by (simp add: bytes_slice B l)
  have f2: "DataView (buffer d) (byteOffset d + 40) 4 = Inr (le_bytes 4 N)"
    using DataView_view [OF v, of 40 4] len by (simp add: B l ll)
  have f3: "bytes (Buffer_slice d 44 (44 + N)) = nb"
    by (simp add: bytes_slice B l ll)
  have f4: "DataView (buffer d) (byteOffset d + (44 + N)) 8 = Inr (le_bytes 8 (unat r))"
    using DataView_view [OF v, of "44 + N" 8] len by (simp add: B l ll)
  have f5: "DataView (buffer d) (byteOffset d + (52 + N)) 8 = Inr (le_bytes 8 (unat e))"
    using DataView_view [OF v, of "52 + N" 8] len by (simp add: B l ll)
  have f6: "index d (60 + N) = Some a"
    using index_view [of "60 + N" d] len by (simp add: B l ll nth_append)
  have f7: "DataView (buffer d) (byteOffset d + (61 + N)) 4 = Inr (le_bytes 4 M)"
    using DataView_view [OF v, of "61 + N" 4] len by (simp add: B l ll)
  have "drop (65 + N) (take (65 + N + length mb)
      ((disc @ ob @ le_bytes 4 N @ nb @ le_bytes 8 (unat r) @ le_bytes 8 (unat e) @ [a]
        @ le_bytes 4 M) @ mb @ pad)) = mb"
    by (rule drop_take_mid) (simp add: l ll)
  then have f8: "bytes (Buffer_slice d (65 + N) (65 + N + M)) = mb"
    by (simp add: bytes_slice B ll)
  have g: "getUint32 (le_bytes 4 N) 0 = Inr N" "getUint32 (le_bytes 4 M) 0 = Inr M"
    using l by (simp_all add: getUint32_le_bytes N_def M_def)
  have r1: "bytes (Buffer_slice d 8 (8 + 32)) = ob"
    using f1 by simp
  have r2: "DataView (buffer d) (byteOffset d + (8 + 32)) 4 = Inr (le_bytes 4 N)"
    using f2 by simp
  have r3: "bytes (Buffer_slice d (8 + 32 + 4) (8 + 32 + 4 + N)) = nb"
    using f3 by simp
  have r4: "DataView (buffer d) (byteOffset d + (8 + 32 + 4 + N)) 8 = Inr (le_bytes 8 (unat r))"
    using f4 by simp
  have r5: "DataView (buffer d) (byteOffset d + (8 + 32 + 4 + N + 8)) 8
      = Inr (le_bytes 8 (unat e))"
    using f5 by (simp add: add.commute add.left_commute)
  have r6: "index d (8 + 32 + 4 + N + 8 + 8) = Some a"
    using f6 by (simp add: add.commute add.left_commute)
  have r7: "DataView (buffer d) (byteOffset d + (8 + 32 + 4 + N + 8 + 8 + 1)) 4
      = Inr (le_bytes 4 M)"
    using f7 by (simp add: add.commute add.left_commute)
  have r8: "bytes (Buffer_slice d (8 + 32 + 4 + N + 8 + 8 + 1 + 4)
      (8 + 32 + 4 + N + 8 + 8 + 1 + 4 + M)) = mb"
    using f8 by (simp add: add.commute add.left_commute)
  have a: "(Some a \<noteq> Some 0) = (a \<noteq> 0)" by simp
  show ?thesis
    by (simp only: parseDomainData_def Let_def bind_err_def r1 r2 r3 r4 r5 r6 r7 r8 g
        PublicKey_new_32 [OF l(2)] getBigInt64_le_bytes sum.case a)
qed

section \<open>UTF-8: decoding what was encoded\<close>

lemma unat_byte_small: "n < 256 \<Longrightarrow> unat (of_nat n :: byte) = n"
  by (simp add: unat_of_nat)

lemma decode_1:
  assumes "cp < 0x80"
  shows "utf8_decode 0 c l u (utf8_bytes cp @ rest) = cp # utf8_decode 0 0 0x80 0xBF rest"
  using assms by (simp add: utf8_bytes_def unat_byte_small)

lemma decode_2:
  assumes "0x80 \<le> cp" "cp < 0x800"
  shows "utf8_decode 0 c l u (utf8_bytes cp @ rest) = cp # utf8_decode 0 0 0x80 0xBF rest"
proof -
  define q where "q = cp div 64"
  define r where "r = cp mod 64"
  have cp: "cp = 64 * q + r" and r: "r < 64" by (simp_all add: q_def r_def)
  have q: "2 \<le> q" "q < 32" using assms cp r by linarith+
  have b1: "unat (192 + of_nat q :: byte) = 192 + q"
    using unat_byte_small [of "192 + q"] q by simp
  have b2: "unat (128 + of_nat r :: byte) = 128 + r"
    using unat_byte_small [of "128 + r"] r by simp
  have "utf8_bytes cp = [of_nat (192 + q), of_nat (128 + r)]"
    using assms by (simp add: utf8_bytes_def q_def r_def)
  then show ?thesis using q r by (simp add: b1 b2 cp)
qed

lemma decode_3:
  assumes "0x800 \<le> cp" "cp < 0x10000" "\<not> (0xD800 \<le> cp \<and> cp \<le> 0xDFFF)"
  shows "utf8_decode 0 c l u (utf8_bytes cp @ rest) = cp # utf8_decode 0 0 0x80 0xBF rest"
proof -
  define p where "p = cp div 4096"
  define q where "q = cp div 64 mod 64"
  define r where "r = cp mod 64"
  have r: "r < 64" and q: "q < 64" by (simp_all add: q_def r_def)
  have "cp = 64 * (cp div 64) + r" by (simp add: r_def)
  moreover have "cp div 64 = 64 * (cp div 64 div 64) + q" by (simp add: q_def)
  moreover have "cp div 64 div 64 = p" by (simp add: p_def div_mult2_eq [symmetric])
  ultimately have cp: "cp = 4096 * p + 64 * q + r" by linarith
  have p: "p < 16" using assms cp by linarith
  have lo: "p = 0 \<Longrightarrow> 32 \<le> q" using assms cp r by linarith
  have hi: "p = 13 \<Longrightarrow> q < 32" using assms cp r q by linarith
  have b1: "unat (224 + of_nat p :: byte) = 224 + p"
    using unat_byte_small [of "224 + p"] p by simp
  have b2: "unat (128 + of_nat q :: byte) = 128 + q"
    using unat_byte_small [of "128 + q"] q by simp
  have b3: "unat (128 + of_nat r :: byte) = 128 + r"
    using unat_byte_small [of "128 + r"] r by simp
  have "utf8_bytes cp = [of_nat (224 + p), of_nat (128 + q), of_nat (128 + r)]"
    using assms by (simp add: utf8_bytes_def p_def q_def r_def)
  then show ?thesis using p q r lo hi by (auto simp add: b1 b2 b3 cp)
qed

lemma decode_4:
  assumes "0x10000 \<le> cp" "cp < 0x110000"
  shows "utf8_decode 0 c l u (utf8_bytes cp @ rest) = cp # utf8_decode 0 0 0x80 0xBF rest"
proof -
  define o' where "o' = cp div 262144"
  define p where "p = cp div 4096 mod 64"
  define q where "q = cp div 64 mod 64"
  define r where "r = cp mod 64"
  have r: "r < 64" and q: "q < 64" and p: "p < 64" by (simp_all add: p_def q_def r_def)
  have "cp = 64 * (cp div 64) + r" by (simp add: r_def)
  moreover have "cp div 64 = 64 * (cp div 64 div 64) + q" by (simp add: q_def)
  moreover have e: "cp div 64 div 64 = cp div 4096" by (simp add: div_mult2_eq [symmetric])
  moreover have "cp div 4096 = 64 * (cp div 4096 div 64) + p" by (simp add: p_def)
  moreover have "cp div 4096 div 64 = o'" by (simp add: o'_def div_mult2_eq [symmetric])
  ultimately have cp: "cp = 262144 * o' + 4096 * p + 64 * q + r" by linarith
  have o: "o' < 5" using assms cp by linarith
  have lo: "o' = 0 \<Longrightarrow> 16 \<le> p" using assms cp r q by linarith
  have hi: "o' = 4 \<Longrightarrow> p < 16" using assms cp r q by linarith
  have b1: "unat (240 + of_nat o' :: byte) = 240 + o'"
    using unat_byte_small [of "240 + o'"] o by simp
  have b2: "unat (128 + of_nat p :: byte) = 128 + p"
    using unat_byte_small [of "128 + p"] p by simp
  have b3: "unat (128 + of_nat q :: byte) = 128 + q"
    using unat_byte_small [of "128 + q"] q by simp
  have b4: "unat (128 + of_nat r :: byte) = 128 + r"
    using unat_byte_small [of "128 + r"] r by simp
  have "utf8_bytes cp = [of_nat (240 + o'), of_nat (128 + p), of_nat (128 + q), of_nat (128 + r)]"
    using assms by (simp add: utf8_bytes_def o'_def p_def q_def r_def)
  then show ?thesis using o p q r lo hi by (auto simp add: b1 b2 b3 b4 cp)
qed

lemma decode_scalar:
  assumes "scalar cp"
  shows "utf8_decode 0 c l u (utf8_bytes cp @ rest) = cp # utf8_decode 0 0 0x80 0xBF rest"
proof -
  consider "cp < 0x80" | "0x80 \<le> cp \<and> cp < 0x800" | "0x800 \<le> cp \<and> cp < 0x10000"
    | "0x10000 \<le> cp" by linarith
  then show ?thesis
  proof cases
    case 1 then show ?thesis by (rule decode_1)
  next
    case 2 then show ?thesis by (simp add: decode_2)
  next
    case 3 then show ?thesis using assms by (simp add: decode_3 scalar_def)
  next
    case 4 then show ?thesis using assms by (simp add: decode_4 scalar_def)
  qed
qed

lemma decode_scalars:
  "list_all scalar cps \<Longrightarrow> utf8_decode 0 c l u (concat (map utf8_bytes cps)) = cps"
  by (induction cps arbitrary: c l u) (simp_all add: decode_scalar)

lemma unat16_small: "n < 65536 \<Longrightarrow> unat (of_nat n :: 16 word) = n"
  by (simp add: unat_of_nat)

lemma not_surrogate_scalar:
  assumes "\<not> is_lead c" "\<not> is_trail c"
  shows "scalar (unat c)" and "utf16_units (unat c) = [c]"
proof -
  have lt: "unat c < 65536" using unsigned_less [of c] by simp
  have "\<not> (0xD800 \<le> unat c \<and> unat c \<le> 0xDFFF)"
    using assms by (auto simp: is_lead_def is_trail_def word_le_nat_alt)
  with lt show "scalar (unat c)" by (simp add: scalar_def)
  from lt show "utf16_units (unat c) = [c]" by (simp add: utf16_units_def)
qed

lemma pair_scalar:
  assumes "is_lead c" "is_trail d"
  shows "scalar (0x10000 + (unat c - 0xD800) * 0x400 + (unat d - 0xDC00))"
    and "utf16_units (0x10000 + (unat c - 0xD800) * 0x400 + (unat d - 0xDC00)) = [c, d]"
proof -
  define h where "h = unat c - 0xD800"
  define t where "t = unat d - 0xDC00"
  have c: "unat c = 0xD800 + h" and h: "h < 0x400"
    using assms(1) by (auto simp: is_lead_def word_le_nat_alt h_def)
  have d: "unat d = 0xDC00 + t" and t: "t < 0x400"
    using assms(2) by (auto simp: is_trail_def word_le_nat_alt t_def)
  show "scalar (0x10000 + (unat c - 0xD800) * 0x400 + (unat d - 0xDC00))"
    using h t unfolding h_def [symmetric] t_def [symmetric] by (simp add: scalar_def)
  have "(h * 0x400 + t) div 0x400 = h" "(h * 0x400 + t) mod 0x400 = t"
    using t by simp_all
  moreover have "(of_nat (0xD800 + h) :: 16 word) = c" "(of_nat (0xDC00 + t) :: 16 word) = d"
    unfolding c [symmetric] d [symmetric] by simp_all
  ultimately show "utf16_units (0x10000 + (unat c - 0xD800) * 0x400 + (unat d - 0xDC00)) = [c, d]"
    unfolding h_def [symmetric] t_def [symmetric] by (simp add: utf16_units_def)
qed

lemma code_points_well_formed:
  "well_formed s \<Longrightarrow>
     list_all scalar (code_points s) \<and> concat (map utf16_units (code_points s)) = s"
proof (induction s rule: code_points.induct)
  case 1
  show ?case by simp
next
  case (2 c)
  then show ?case by (simp add: not_surrogate_scalar)
next
  case (3 c d cs)
  show ?case
  proof (cases "is_lead c")
    case True
    with 3 show ?thesis by (simp add: pair_scalar)
  next
    case False
    with 3 show ?thesis by (simp add: not_surrogate_scalar)
  qed
qed

lemma unat_FEFF:
  assumes "unat (c :: 16 word) = 0xFEFF"
  shows "c = 0xFEFF"
proof -
  have "c = of_nat (unat c)" by simp
  also have "\<dots> = 0xFEFF" unfolding assms by simp
  finally show ?thesis .
qed

lemma code_points_no_BOM:
  assumes "well_formed s" "take 1 s \<noteq> [0xFEFF]"
  shows "take 1 (code_points s) \<noteq> [0xFEFF]"
proof (cases s rule: code_points.cases)
  case 1
  then show ?thesis by simp
next
  case (2 c)
  then have "c \<noteq> 0xFEFF" using assms by simp
  then have "unat c \<noteq> 0xFEFF" using unat_FEFF by blast
  then show ?thesis using 2 assms by simp
next
  case (3 c d cs)
  then have "c \<noteq> 0xFEFF" using assms by simp
  then have "unat c \<noteq> 0xFEFF" using unat_FEFF by blast
  then show ?thesis using 3 assms by (auto split: if_splits)
qed

lemma decode_encode:
  assumes "well_formed s" "take 1 s \<noteq> [0xFEFF]"
  shows "TextDecoder_decode (Buffer_from_utf8 s) = s"
proof -
  from code_points_well_formed [OF assms(1)]
  have sc: "list_all scalar (code_points s)"
    and u: "concat (map utf16_units (code_points s)) = s" by simp_all
  have d: "utf8_decode 0 0 0x80 0xBF (Buffer_from_utf8 s) = code_points s"
    unfolding Buffer_from_utf8_def by (rule decode_scalars [OF sc])
  have "(case code_points s of [] \<Rightarrow> [] | c # rest \<Rightarrow> if c = 0xFEFF then rest else code_points s)
      = code_points s"
    using code_points_no_BOM [OF assms] by (cases "code_points s") auto
  then show ?thesis by (simp add: TextDecoder_decode_def d u)
qed

section \<open>Decoding a domain account\<close>

lemma valid_view_Buffer_from: "valid_view (Buffer_from bs)"
  by (simp add: valid_view_def Buffer_from_def)

lemma bytes_Buffer_from: "bytes (Buffer_from bs) = bs"
  by (simp add: bytes_def Buffer_from_def)

lemma parseDomainData_Buffer_from:
  assumes "length disc = 8" "length ob = 32" "length nb < 2 ^ 32" "length mb < 2 ^ 32"
  shows "parseDomainData (Buffer_from (domain_account_layout disc ob nb r e a mb)) =
     Inr \<lparr>di_owner = Some (of_nat (BN ob)), di_name = TextDecoder_decode nb,
          di_registered = Number_BigInt (sint r), di_expires = Number_BigInt (sint e),
          di_active = (a \<noteq> 0), di_data = TextDecoder_decode mb, di_exists = True,
          di_parseError = None\<rparr>"
  using parseDomainData_layout [OF valid_view_Buffer_from _ assms, of _ r e a "[]"]
  by (simp add: bytes_Buffer_from)

lemma parseDomainAccount_eq:
  "parseDomainAccount address d =
     Inr (case parseDomainData d of Inl e \<Rightarrow> None | Inr info \<Rightarrow> Some info)"
  by (simp add: parseDomainAccount_def catch_def bind_err_def split: sum.splits)

lemma getDomainInfo_eq:
  "getDomainInfo L C now1 now2 name =
     Inr (case getDomainPDA L name of
            Inl e \<Rightarrow> None
          | Inr (domainPDA, bump) \<Rightarrow>
              (case getAccountInfo C domainPDA of
                 Inl e \<Rightarrow> None
               | Inr None \<Rightarrow> None
               | Inr (Some acc) \<Rightarrow>
                   (case parseDomainData (ai_data acc) of
                      Inr info \<Rightarrow> Some info
                    | Inl parseError \<Rightarrow>
                        Some \<lparr>di_owner = None, di_name = name,
                              di_registered = real_of_int now1 / 1000,
                              di_expires = real_of_int now2 / 1000 + 31536000,
                              di_active = True, di_data = [], di_exists = True,
                              di_parseError = Some parseError\<rparr>)))"
  by (auto simp: getDomainInfo_def catch_def bind_err_def Let_def
      split: sum.splits prod.splits option.splits)

text \<open>
  Claim C4, as the code has it: for every N in [0, 32] and M in [0, 128], decoding a domain
  account laid out as 8 discriminant bytes, 32 owner bytes, a 4-byte little-endian name
  length N, N name bytes, an 8-byte little-endian signed registeredAt, an 8-byte little-endian
  signed expiresAt, one active byte (nonzero meaning true), a 4-byte little-endian metadata
  length M and M metadata bytes reads each field at exactly those offsets (in
  \<open>parseDomainAccount\<close> and in \<open>getDomainInfo\<close> alike): the owner is the
  key of the 32 owner bytes, the two times are \<open>Number\<close> of the signed values (the values
  themselves up to the magnitude \<open>2 ^ 53\<close>, the nearest double beyond), active is true
  exactly for a nonzero byte, and name and metadata are the decodings of exactly the N name bytes
  and the M metadata bytes. Whenever the name bytes (the metadata bytes) are the UTF-8
  encoding of a well-formed string that does not start with a byte order mark, that string
  is returned, and its byte length is N (is M).
\<close>

theorem domain_account_decoding:
  assumes "valid_view d"
    and "bytes d = domain_account_layout disc ownerBytes nameBytes registeredAt expiresAt
           activeByte metadataBytes"
    and "length disc = 8" and "length ownerBytes = 32"
    and "length nameBytes \<le> 32" and "length metadataBytes \<le> 128"
  shows "\<exists>info owner. parseDomainData d = Inr info
      \<and> parseDomainAccount address d = Inr (Some info)
      \<and> (\<forall>L C now1 now2 name domainPDA bump acc.
            getDomainPDA L name = Inr (domainPDA, bump)
            \<and> getAccountInfo C domainPDA = Inr (Some acc) \<and> ai_data acc = d
            \<longrightarrow> getDomainInfo L C now1 now2 name = Inr (Some info))
      \<and> di_owner info = Some owner \<and> toBuffer owner = ownerBytes
      \<and> di_name info = TextDecoder_decode nameBytes
      \<and> di_registered info = Number_BigInt (sint registeredAt)
      \<and> di_expires info = Number_BigInt (sint expiresAt)
      \<and> (\<bar>sint registeredAt\<bar> \<le> 2 ^ 53 \<longrightarrow>
            di_registered info = real_of_int (sint registeredAt))
      \<and> (\<bar>sint expiresAt\<bar> \<le> 2 ^ 53 \<longrightarrow>
            di_expires info = real_of_int (sint expiresAt))
      \<and> di_active info = (activeByte \<noteq> 0)
      \<and> di_data info = TextDecoder_decode metadataBytes
      \<and> (\<forall>s. well_formed s \<and> take 1 s \<noteq> [0xFEFF] \<and> nameBytes = Buffer_from_utf8 s \<longrightarrow>
            di_name info = s \<and> length (Buffer_from_utf8 (di_name info)) = length nameBytes)
      \<and> (\<forall>s. well_formed s \<and> take 1 s \<noteq> [0xFEFF] \<and> metadataBytes = Buffer_from_utf8 s \<longrightarrow>
            di_data info = s \<and> length (Buffer_from_utf8 (di_data info)) = length metadataBytes)"
proof -
  have n: "length nameBytes < 2 ^ 32" and m: "length metadataBytes < 2 ^ 32"
    using assms(5,6) by simp_all
  have b: "bytes d = domain_account_layout disc ownerBytes nameBytes registeredAt expiresAt
           activeByte metadataBytes @ []"
    using assms(2) by simp
  note p = parseDomainData_layout [OF assms(1) b assms(3,4) n m]
  show ?thesis
    by (simp add: p parseDomainAccount_eq getDomainInfo_eq PublicKey_new_32 [OF assms(4)]
        decode_encode Number_BigInt_exact)
qed

lemma ascii_alice_units: "ascii ''alice'' = [0x61, 0x6c, 0x69, 0x63, 0x65]"
  by (simp add: ascii_def)

lemma ascii_hi_units: "ascii ''hi'' = [0x68, 0x69]"
  by (simp add: ascii_def)

theorem domain_account_decoding_witness:
  "\<exists>info owner.
     parseDomainData (Buffer_from (domain_account_layout [1, 2, 3, 4, 5, 6, 7, 8] (toBuffer 7)
        [0x61, 0x6c, 0x69, 0x63, 0x65] 1700000000 1731536000 1 [0x68, 0x69])) = Inr info
     \<and> di_owner info = Some owner \<and> toBuffer owner = toBuffer 7
     \<and> di_name info = ascii ''alice'' \<and> length (Buffer_from_utf8 (di_name info)) = 5
     \<and> di_registered info = 1700000000 \<and> di_expires info = 1731536000 \<and> di_active info
     \<and> di_data info = ascii ''hi'' \<and> length (Buffer_from_utf8 (di_data info)) = 2"
proof -
  have w: "well_formed (ascii ''alice'')" "well_formed (ascii ''hi'')"
    by (simp_all add: ascii_alice_units ascii_hi_units is_lead_def is_trail_def)
  have t: "take 1 (ascii ''alice'') \<noteq> [0xFEFF]" "take 1 (ascii ''hi'') \<noteq> [0xFEFF]"
    by (simp_all add: ascii_alice_units ascii_hi_units)
  have s: "sint (1700000000 :: 64 word) = 1700000000" "sint (1731536000 :: 64 word) = 1731536000"
    by simp_all
  from domain_account_decoding [OF valid_view_Buffer_from bytes_Buffer_from,
      of "[1, 2, 3, 4, 5, 6, 7, 8]" "toBuffer 7" "[0x61, 0x6c, 0x69, 0x63, 0x65]"
         "[0x68, 0x69]" 1700000000 1731536000 1 0]
  obtain info owner where
    "parseDomainData (Buffer_from (domain_account_layout [1, 2, 3, 4, 5, 6, 7, 8] (toBuffer 7)
        [0x61, 0x6c, 0x69, 0x63, 0x65] 1700000000 1731536000 1 [0x68, 0x69])) = Inr info"
    "di_owner info = Some owner" "toBuffer owner = toBuffer 7"
    "\<bar>sint (1700000000 :: 64 word)\<bar> \<le> 2 ^ 53 \<longrightarrow>
       di_registered info = real_of_int (sint (1700000000 :: 64 word))"
    "\<bar>sint (1731536000 :: 64 word)\<bar> \<le> 2 ^ 53 \<longrightarrow>
       di_expires info = real_of_int (sint (1731536000 :: 64 word))"
    "di_active info"
    "\<forall>s. well_formed s \<and> take 1 s \<noteq> [0xFEFF] \<and> [0x61, 0x6c, 0x69, 0x63, 0x65] = Buffer_from_utf8 s \<longrightarrow>
            di_name info = s \<and> length (Buffer_from_utf8 (di_name info)) = length [0x61 :: byte, 0x6c, 0x69, 0x63, 0x65]"
    "\<forall>s. well_formed s \<and> take 1 s \<noteq> [0xFEFF] \<and> [0x68, 0x69] = Buffer_from_utf8 s \<longrightarrow>
            di_data info = s \<and> length (Buffer_from_utf8 (di_data info)) = length [0x68 :: byte, 0x69]"
    by (auto simp: length_toBuffer)
  then show ?thesis
    using w t utf8_alice utf8_hi s by (intro exI [of _ info] exI [of _ owner]) auto
qed

text \<open>
  Claim C4 as written promises a name of byte length N for every N name bytes. The one name
  byte \<open>ff\<close> is not UTF-8: it decodes to U+FFFD, a name of byte length 3.
\<close>

theorem domain_name_length_counterexample:
  "map_sum id (length \<circ> Buffer_from_utf8 \<circ> di_name)
     (parseDomainData (Buffer_from (domain_account_layout [1, 2, 3, 4, 5, 6, 7, 8] (toBuffer 7)
        [0xFF] 1700000000 1731536000 1 []))) = Inr 3
   \<and> length [0xFF :: byte] = 1"
  by (simp add: parseDomainData_Buffer_from length_toBuffer TextDecoder_decode_def
      utf16_units_def Buffer_from_utf8_def is_lead_def is_trail_def utf8_bytes_def)

text \<open>
  A time beyond \<open>2 ^ 53\<close> is returned rounded: the stored value \<open>2 ^ 53 + 1\<close> is read as
  \<open>2 ^ 53\<close>.
\<close>

lemma registered_rounded_example:
  "map_sum id di_registered
     (parseDomainData (Buffer_from (domain_account_layout [1, 2, 3, 4, 5, 6, 7, 8] (toBuffer 7)
        [] 9007199254740993 0 1 []))) = Inr 9007199254740992"
  by (simp add: parseDomainData_Buffer_from length_toBuffer Number_BigInt_rounds)

section \<open>Availability\<close>

lemma strip_carv_suffix: "strip_carv (base @ ascii ''.carv'') = base"
proof -
  have "length (ascii ''.carv'') = 5" by (simp add: ascii_def)
  then show ?thesis by (simp add: strip_carv_def)
qed

lemma checkDomainAvailability_eq:
  "checkDomainAvailability L C name =
     Inr (\<exists>domainPDA bump slot. getDomainPDA L (strip_carv name) = Inr (domainPDA, bump)
            \<and> getSlot C = Inr slot \<and> getAccountInfo C domainPDA = Inr None)"
  by (auto simp: checkDomainAvailability_def catch_def bind_err_def Let_def
      split: sum.splits prod.splits option.splits)

text \<open>
  Claim C6: \<open>checkDomainAvailability\<close> returns true exactly when the account fetch at the
  derived address returns absent; it returns false when the fetch returns any account
  (whatever its bytes and its owning program) and when the derivation, the slot request or
  the fetch throws. It never throws itself.
\<close>

theorem checkDomainAvailability_result:
  "checkDomainAvailability L C name =
     Inr (\<exists>domainPDA bump slot. getDomainPDA L (strip_carv name) = Inr (domainPDA, bump)
            \<and> getSlot C = Inr slot \<and> getAccountInfo C domainPDA = Inr None)
   \<and> (\<forall>domainPDA bump acc.
        getDomainPDA L (strip_carv name) = Inr (domainPDA, bump)
        \<and> getAccountInfo C domainPDA = Inr (Some acc)
        \<longrightarrow> checkDomainAvailability L C name = Inr False)
   \<and> (\<forall>e. getDomainPDA L (strip_carv name) = Inl e \<or> getSlot C = Inl e
          \<or> (\<exists>domainPDA bump. getDomainPDA L (strip_carv name) = Inr (domainPDA, bump)
                \<and> getAccountInfo C domainPDA = Inl e)
        \<longrightarrow> checkDomainAvailability L C name = Inr False)"
  unfolding checkDomainAvailability_eq by auto

lemma ascii_alice_carv: "ascii ''alice.carv'' = ascii ''alice'' @ ascii ''.carv''"
  by (simp add: ascii_def)

lemma example_connection_simps:
  "getSlot example_connection = Inr 1"
  "getAccountInfo example_connection k = Inr None"
  "getSlot example_connection_corrupt = Inr 1"
  "getAccountInfo example_connection_corrupt k =
     Inr (Some \<lparr>ai_data = Buffer_from [], ai_owner = 0, ai_lamports = 1, ai_executable = False\<rparr>)"
  "getSlot example_connection_down = Inr 1"
  "getAccountInfo example_connection_down k = Inl Error"
  "getSlot example_connection_registered = Inr 1"
  "getAccountInfo example_connection_registered (0x646F6D61696E616C696E70)
     = Inr (Some example_account)"
  by (simp_all add: example_connection_def example_connection_corrupt_def
      example_connection_down_def example_connection_registered_def)

theorem checkDomainAvailability_result_witness:
  "checkDomainAvailability example_lib example_connection (ascii ''alice.carv'') = Inr True
   \<and> checkDomainAvailability example_lib example_connection_corrupt (ascii ''alice.carv'')
       = Inr False
   \<and> checkDomainAvailability example_lib example_connection_down (ascii ''alice.carv'')
       = Inr False"
  using checkDomainAvailability_result [of example_lib example_connection "ascii ''alice.carv''"]
    checkDomainAvailability_result [of example_lib example_connection_corrupt "ascii ''alice.carv''"]
    checkDomainAvailability_result [of example_lib example_connection_down "ascii ''alice.carv''"]
  by (simp add: ascii_alice_carv strip_carv_suffix example_pda_alice example_connection_simps)

section \<open>Domain information\<close>

text \<open>
  Claim C9, as the code has it: \<open>getDomainInfo\<close> returns absent exactly when the account
  fetch at the derived address returns absent or the derivation or the fetch throws; when
  the account exists but parsing its bytes throws, it returns a degraded record with the
  parse error attached (the requested name, no owner, the current time as registeredAt,
  one year later as expiresAt, active set to true); it never passes an error on to the
  caller.
\<close>

theorem getDomainInfo_result:
  "(getDomainInfo L C now1 now2 name = Inr None \<longleftrightarrow>
      (\<exists>e. getDomainPDA L name = Inl e)
      \<or> (\<exists>domainPDA bump. getDomainPDA L name = Inr (domainPDA, bump)
            \<and> (getAccountInfo C domainPDA = Inr None
                \<or> (\<exists>e. getAccountInfo C domainPDA = Inl e))))
   \<and> (\<forall>domainPDA bump acc parseError.
        getDomainPDA L name = Inr (domainPDA, bump)
        \<and> getAccountInfo C domainPDA = Inr (Some acc)
        \<and> parseDomainData (ai_data acc) = Inl parseError
        \<longrightarrow> getDomainInfo L C now1 now2 name =
              Inr (Some \<lparr>di_owner = None, di_name = name,
                         di_registered = real_of_int now1 / 1000,
                         di_expires = real_of_int now2 / 1000 + 31536000,
                         di_active = True, di_data = [], di_exists = True,
                         di_parseError = Some parseError\<rparr>))
   \<and> (\<exists>result. getDomainInfo L C now1 now2 name = Inr result)"
  unfolding getDomainInfo_eq by (auto split: sum.splits prod.splits option.splits)

lemma parse_empty: "parseDomainData (Buffer_from []) = Inl RangeError"
  by (simp add: parseDomainData_def Buffer_from_def Buffer_slice_def bytes_def
      PublicKey_new_def BN_def bind_err_def DataView_def)

theorem getDomainInfo_result_witness:
  "getDomainInfo example_lib example_connection 1700000000000 1700000000001 (ascii ''alice'')
     = Inr None
   \<and> getDomainInfo example_lib example_connection_down 1700000000000 1700000000001
       (ascii ''alice'') = Inr None
   \<and> getDomainInfo example_lib example_connection_corrupt 1700000000000 1700000000001
       (ascii ''alice'') =
       Inr (Some \<lparr>di_owner = None, di_name = ascii ''alice'', di_registered = 1700000000,
                  di_expires = 1700000000.001 + 31536000,
                  di_active = True, di_data = [], di_exists = True,
                  di_parseError = Some RangeError\<rparr>)"
  using getDomainInfo_result [of example_lib example_connection 1700000000000 1700000000001
      "ascii ''alice''"]
    getDomainInfo_result [of example_lib example_connection_down 1700000000000 1700000000001
      "ascii ''alice''"]
    getDomainInfo_result [of example_lib example_connection_corrupt 1700000000000 1700000000001
      "ascii ''alice''"]
  by (simp add: example_pda_alice example_connection_simps parse_empty)

text \<open>
  Claim C9 as written lets \<open>getDomainInfo\<close> return absent only when the fetch returns
  absent. On a connection whose fetch throws it returns absent as well.
\<close>

theorem getDomainInfo_absent_counterexample:
  "getDomainInfo example_lib example_connection_down 1700000000000 1700000000001
     (ascii ''alice'') = Inr None
   \<and> getDomainPDA example_lib (ascii ''alice'') = Inr (0x646F6D61696E616C696E70, 255)
   \<and> getAccountInfo example_connection_down (0x646F6D61696E616C696E70) = Inl Error"
  by (simp add: getDomainInfo_eq example_pda_alice example_connection_simps)

section \<open>Resolution\<close>

lemma parseDomainData_exists:
  assumes "parseDomainData d = Inr info"
  shows "di_exists info"
  using assms unfolding parseDomainData_def Let_def bind_err_def
  by (auto split: sum.splits)

lemma getDomainInfo_exists:
  assumes "getDomainInfo L C now1 now2 name = Inr (Some info)"
  shows "di_exists info"
  using assms unfolding getDomainInfo_eq
  by (auto split: sum.splits prod.splits option.splits dest: parseDomainData_exists)

lemma resolveDomain_eq:
  "resolveDomain L C now1 now2 now domain =
     Inr (case getDomainInfo L C now1 now2 (strip_carv domain) of
            Inl e \<Rightarrow> None
          | Inr None \<Rightarrow> None
          | Inr (Some info) \<Rightarrow>
              if di_active info \<and> real_of_int now / 1000 \<le> di_expires info
              then di_owner info else None)"
  by (auto simp: resolveDomain_def catch_def bind_err_def Let_def not_less
      split: sum.splits option.splits dest: getDomainInfo_exists)

text \<open>
  Claim C5, as the code has it: \<open>resolveDomain\<close> returns an owner only when the domain
  record exists, its active flag is true and its expiresAt is not less than the current
  time; in every other case (record absent, inactive, or expiresAt strictly less than the
  current time) it returns absent, and it never throws. A record that is active and has an
  owner resolves to that owner when expiresAt equals the current time.
\<close>

theorem resolveDomain_result:
  "(\<forall>owner. resolveDomain L C now1 now2 now domain = Inr (Some owner) \<longrightarrow>
      (\<exists>info. getDomainInfo L C now1 now2 (strip_carv domain) = Inr (Some info)
         \<and> di_exists info \<and> di_active info \<and> real_of_int now / 1000 \<le> di_expires info
         \<and> di_owner info = Some owner))
   \<and> ((\<forall>info. getDomainInfo L C now1 now2 (strip_carv domain) = Inr (Some info) \<longrightarrow>
         \<not> di_active info \<or> di_expires info < real_of_int now / 1000 \<or> di_owner info = None)
        \<longrightarrow> resolveDomain L C now1 now2 now domain = Inr None)
   \<and> (\<forall>info owner. getDomainInfo L C now1 now2 (strip_carv domain) = Inr (Some info)
         \<and> di_active info \<and> di_expires info = real_of_int now / 1000
         \<and> di_owner info = Some owner
        \<longrightarrow> resolveDomain L C now1 now2 now domain = Inr (Some owner))
   \<and> (\<exists>result. resolveDomain L C now1 now2 now domain = Inr result)"
proof (intro conjI allI impI)
  fix owner
  assume "resolveDomain L C now1 now2 now domain = Inr (Some owner)"
  then show "\<exists>info. getDomainInfo L C now1 now2 (strip_carv domain) = Inr (Some info)
         \<and> di_exists info \<and> di_active info \<and> real_of_int now / 1000 \<le> di_expires info
         \<and> di_owner info = Some owner"
    unfolding resolveDomain_eq
    by (auto split: sum.splits option.splits if_splits dest: getDomainInfo_exists)
next
  assume "\<forall>info. getDomainInfo L C now1 now2 (strip_carv domain) = Inr (Some info) \<longrightarrow>
         \<not> di_active info \<or> di_expires info < real_of_int now / 1000 \<or> di_owner info = None"
  then show "resolveDomain L C now1 now2 now domain = Inr None"
    unfolding resolveDomain_eq by (auto split: sum.splits option.splits)
next
  fix info owner
  assume "getDomainInfo L C now1 now2 (strip_carv domain) = Inr (Some info)
         \<and> di_active info \<and> di_expires info = real_of_int now / 1000
         \<and> di_owner info = Some owner"
  then show "resolveDomain L C now1 now2 now domain = Inr (Some owner)"
    unfolding resolveDomain_eq by simp
next
  show "\<exists>result. resolveDomain L C now1 now2 now domain = Inr result"
    unfolding resolveDomain_eq by simp
qed

lemma example_account_parse:
  "parseDomainData (ai_data example_account) =
     Inr \<lparr>di_owner = Some 7, di_name = ascii ''alice'', di_registered = 1700000000,
          di_expires = 1731536000, di_active = True, di_data = ascii ''hi'', di_exists = True,
          di_parseError = None\<rparr>"
proof -
  have "TextDecoder_decode (Buffer_from_utf8 (ascii ''alice'')) = ascii ''alice''"
    "TextDecoder_decode (Buffer_from_utf8 (ascii ''hi'')) = ascii ''hi''"
    by (rule decode_encode; simp add: ascii_def is_lead_def is_trail_def)+
  then have d: "TextDecoder_decode [0x61, 0x6c, 0x69, 0x63, 0x65] = ascii ''alice''"
    "TextDecoder_decode [0x68, 0x69] = ascii ''hi''"
    by (simp_all add: utf8_alice utf8_hi)
  show ?thesis
    by (simp add: example_account_def parseDomainData_Buffer_from length_toBuffer BN_toBuffer d
        Number_BigInt_exact)
qed

lemma example_registered_info:
  "getDomainInfo example_lib example_connection_registered now1 now2 (ascii ''alice'') =
     Inr (Some \<lparr>di_owner = Some 7, di_name = ascii ''alice'', di_registered = 1700000000,
          di_expires = 1731536000, di_active = True, di_data = ascii ''hi'', di_exists = True,
          di_parseError = None\<rparr>)"
  by (simp add: getDomainInfo_eq example_pda_alice example_connection_simps
      example_account_parse)

theorem resolveDomain_result_witness:
  "resolveDomain example_lib example_connection_registered 0 0 1731536000000
     (ascii ''alice.carv'') = Inr (Some 7)
   \<and> resolveDomain example_lib example_connection_registered 0 0 1731536000001
     (ascii ''alice.carv'') = Inr None
   \<and> resolveDomain example_lib example_connection 0 0 1700000000000
     (ascii ''alice.carv'') = Inr None"
proof -
  have i: "getDomainInfo example_lib example_connection_registered 0 0
      (strip_carv (ascii ''alice.carv'')) =
     Inr (Some \<lparr>di_owner = Some 7, di_name = ascii ''alice'', di_registered = 1700000000,
          di_expires = 1731536000, di_active = True, di_data = ascii ''hi'', di_exists = True,
          di_parseError = None\<rparr>)" (is "_ = Inr (Some ?I)")
    by (simp add: ascii_alice_carv strip_carv_suffix example_registered_info)
  have j: "getDomainInfo example_lib example_connection 0 0 (strip_carv (ascii ''alice.carv''))
      = Inr None"
    by (simp add: ascii_alice_carv strip_carv_suffix getDomainInfo_eq example_pda_alice
        example_connection_simps)
  have a: "getDomainInfo example_lib example_connection_registered 0 0
        (strip_carv (ascii ''alice.carv'')) = Inr (Some ?I)
      \<and> di_active ?I \<and> di_expires ?I = real_of_int 1731536000000 / 1000
      \<and> di_owner ?I = Some 7"
    using i by simp
  have b: "\<forall>info. getDomainInfo example_lib example_connection_registered 0 0
        (strip_carv (ascii ''alice.carv'')) = Inr (Some info) \<longrightarrow>
      \<not> di_active info \<or> di_expires info < real_of_int 1731536000001 / 1000
      \<or> di_owner info = None"
    unfolding i by auto
  have c: "\<forall>info. getDomainInfo example_lib example_connection 0 0
        (strip_carv (ascii ''alice.carv'')) = Inr (Some info) \<longrightarrow>
      \<not> di_active info \<or> di_expires info < real_of_int 1700000000000 / 1000
      \<or> di_owner info = None"
    unfolding j by simp
  from resolveDomain_result [of example_lib example_connection_registered 0 0 1731536000000
      "ascii ''alice.carv''"] a
  have "resolveDomain example_lib example_connection_registered 0 0 1731536000000
     (ascii ''alice.carv'') = Inr (Some 7)"
    by blast
  moreover
  from resolveDomain_result [of example_lib example_connection_registered 0 0 1731536000001
      "ascii ''alice.carv''"] b
  have "resolveDomain example_lib example_connection_registered 0 0 1731536000001
     (ascii ''alice.carv'') = Inr None"
    by blast
  moreover
  from resolveDomain_result [of example_lib example_connection 0 0 1700000000000
      "ascii ''alice.carv''"] c
  have "resolveDomain example_lib example_connection 0 0 1700000000000
     (ascii ''alice.carv'') = Inr None"
    by blast
  ultimately show ?thesis by simp
qed

text \<open>
  Claim C5 as written returns absent when expiresAt equals the current time. The record of
  \<open>alice\<close> expires at second 1731536000; resolved at exactly that time (1731536000000
  milliseconds) it yields the owner.
\<close>

theorem resolveDomain_expiry_counterexample:
  "resolveDomain example_lib example_connection_registered 0 0 1731536000000
     (ascii ''alice.carv'') = Inr (Some 7)
   \<and> map_sum id (map_option di_expires)
       (getDomainInfo example_lib example_connection_registered 0 0 (ascii ''alice''))
     = Inr (Some (real_of_int 1731536000000 / 1000))"
  by (simp add: resolveDomain_eq ascii_alice_carv strip_carv_suffix example_registered_info)

section \<open>The suffix \<open>.carv\<close>\<close>

lemma first_key_register:
  assumes "createRegisterTransaction L C name owner tw = Inr tx"
    and "getDomainPDA L name = Inr (b, bump)"
  shows "\<exists>ix. tx_instructions tx = [ix] \<and> pubkey (hd (ix_keys ix)) = b"
  using assms
  by (auto simp: createRegisterTransaction_def bind_err_def Let_def split: sum.splits)

lemma first_key_renew:
  assumes "createRenewTransaction L C name owner tw = Inr tx"
    and "getDomainPDA L name = Inr (b, bump)"
  shows "\<exists>ix. tx_instructions tx = [ix] \<and> pubkey (hd (ix_keys ix)) = b"
  using assms
  by (auto simp: createRenewTransaction_def bind_err_def Let_def split: sum.splits)

lemma first_key_transfer:
  assumes "createTransferTransaction L C name owner newOwner = Inr tx"
    and "getDomainPDA L name = Inr (b, bump)"
  shows "\<exists>ix. tx_instructions tx = [ix] \<and> pubkey (hd (ix_keys ix)) = b"
  using assms
  by (auto simp: createTransferTransaction_def bind_err_def Let_def split: sum.splits)

lemma first_key_set_data:
  assumes "createSetDataTransaction L C name owner data = Inr tx"
    and "getDomainPDA L name = Inr (b, bump)"
  shows "\<exists>ix. tx_instructions tx = [ix] \<and> pubkey (hd (ix_keys ix)) = b"
  using assms
  by (auto simp: createSetDataTransaction_def bind_err_def Let_def split: sum.splits)

text \<open>
  Claim C10: \<open>checkDomainAvailability\<close> and \<open>resolveDomain\<close> strip one trailing \<open>.carv\<close>
  from the name before they derive the address, while \<open>createRegisterTransaction\<close> and the
  other transaction builders derive it from the name unchanged. So for every name ending in
  \<open>.carv\<close> whose stripped form derives a different address, the availability check and the
  resolution consult the account of the stripped name only, and the built transactions
  address the other account.
\<close>

theorem carv_suffix_addresses:
  assumes "getDomainPDA L base = Inr (a, bump_a)"
    and "getDomainPDA L (base @ ascii ''.carv'') = Inr (b, bump_b)"
    and "a \<noteq> b"
  shows "strip_carv (base @ ascii ''.carv'') = base
    \<and> checkDomainAvailability L C (base @ ascii ''.carv'') =
        Inr (\<exists>slot. getSlot C = Inr slot \<and> getAccountInfo C a = Inr None)
    \<and> (\<forall>C'. getAccountInfo C' a = getAccountInfo C a \<longrightarrow>
          resolveDomain L C' now1 now2 now (base @ ascii ''.carv'') =
          resolveDomain L C now1 now2 now (base @ ascii ''.carv''))
    \<and> (\<forall>tx. createRegisterTransaction L C (base @ ascii ''.carv'') owner tw = Inr tx
            \<or> createRenewTransaction L C (base @ ascii ''.carv'') owner tw = Inr tx
            \<or> createTransferTransaction L C (base @ ascii ''.carv'') owner newOwner = Inr tx
            \<or> createSetDataTransaction L C (base @ ascii ''.carv'') owner data = Inr tx
          \<longrightarrow> (\<exists>ix. tx_instructions tx = [ix] \<and> pubkey (hd (ix_keys ix)) = b
                 \<and> pubkey (hd (ix_keys ix)) \<noteq> a))"
proof (intro conjI allI impI)
  show "strip_carv (base @ ascii ''.carv'') = base" by (rule strip_carv_suffix)
  show "checkDomainAvailability L C (base @ ascii ''.carv'') =
        Inr (\<exists>slot. getSlot C = Inr slot \<and> getAccountInfo C a = Inr None)"
    by (simp add: checkDomainAvailability_eq strip_carv_suffix assms(1))
next
  fix C' :: Connection
  assume "getAccountInfo C' a = getAccountInfo C a"
  then show "resolveDomain L C' now1 now2 now (base @ ascii ''.carv'') =
          resolveDomain L C now1 now2 now (base @ ascii ''.carv'')"
    by (simp add: resolveDomain_eq getDomainInfo_eq strip_carv_suffix assms(1))
next
  fix tx
  assume "createRegisterTransaction L C (base @ ascii ''.carv'') owner tw = Inr tx
            \<or> createRenewTransaction L C (base @ ascii ''.carv'') owner tw = Inr tx
            \<or> createTransferTransaction L C (base @ ascii ''.carv'') owner newOwner = Inr tx
            \<or> createSetDataTransaction L C (base @ ascii ''.carv'') owner data = Inr tx"
  then have "\<exists>ix. tx_instructions tx = [ix] \<and> pubkey (hd (ix_keys ix)) = b"
    using first_key_register [OF _ assms(2)] first_key_renew [OF _ assms(2)]
      first_key_transfer [OF _ assms(2)] first_key_set_data [OF _ assms(2)]
    by blast
  with assms(3) show "\<exists>ix. tx_instructions tx = [ix] \<and> pubkey (hd (ix_keys ix)) = b
                 \<and> pubkey (hd (ix_keys ix)) \<noteq> a"
    by auto
qed

lemma utf8_alice_carv:
  "Buffer_from_utf8 (ascii ''alice'' @ ascii ''.carv'') =
     [0x61, 0x6c, 0x69, 0x63, 0x65, 0x2e, 0x63, 0x61, 0x72, 0x76]"
  by (simp add: Buffer_from_utf8_def ascii_def is_lead_def is_trail_def utf8_bytes_def)

lemma example_pda_alice_carv:
  "getDomainPDA example_lib (ascii ''alice'' @ ascii ''.carv'')
     = Inr (0x646F6D61696E616C6963652E63617D81, 255)"
  by (simp add: getDomainPDA_def utf8_alice_carv utf8_domain example_lib_simps
      example_findProgramAddressSync_def BN_def)

lemma example_register_carv:
  "createRegisterTransaction example_lib example_connection_registered
     (ascii ''alice'' @ ascii ''.carv'') 7 None =
     Inr \<lparr>tx_feePayer = 7,
          tx_instructions =
            [\<lparr>ix_keys = [\<lparr>pubkey = 0x646F6D61696E616C6963652E63617D81, isSigner = False, isWritable = True\<rparr>,
                         \<lparr>pubkey = 7, isSigner = True, isWritable = True\<rparr>,
                         \<lparr>pubkey = 0x54, isSigner = False, isWritable = True\<rparr>,
                         \<lparr>pubkey = 0, isSigner = False, isWritable = False\<rparr>],
              ix_programId = 0x0B0B,
              ix_data = [0xd3, 0x7c, 0x43, 0x0f, 0xd3, 0xc2, 0xb2, 0xf0, 10, 0, 0, 0,
                         0x61, 0x6c, 0x69, 0x63, 0x65, 0x2e, 0x63, 0x61, 0x72, 0x76]\<rparr>],
          tx_recentBlockhash = ascii ''H''\<rparr>"
  by (simp add: createRegisterTransaction_def example_pda_alice_carv example_treasury
      utf8_alice_carv bind_err_def writeUInt32LE_def example_lib_simps
      example_connection_registered_def SystemProgram_programId_def)

theorem carv_suffix_addresses_witness:
  "checkDomainAvailability example_lib example_connection_registered (ascii ''alice.carv'')
     = Inr False
   \<and> (\<exists>tx ix. createRegisterTransaction example_lib example_connection_registered
          (ascii ''alice.carv'') 7 None = Inr tx
        \<and> tx_instructions tx = [ix]
        \<and> pubkey (hd (ix_keys ix)) = 0x646F6D61696E616C6963652E63617D81
        \<and> getAccountInfo example_connection_registered (pubkey (hd (ix_keys ix))) = Inr None)"
proof -
  have ne: "(0x646F6D61696E616C696E70 :: PublicKey) \<noteq> 0x646F6D61696E616C6963652E63617D81"
    by simp
  note t = carv_suffix_addresses [OF example_pda_alice example_pda_alice_carv ne,
      of example_connection_registered _ _ _ 7 None 9 "[]"]
  have "checkDomainAvailability example_lib example_connection_registered
      (ascii ''alice'' @ ascii ''.carv'') = Inr False"
    using t by (simp add: example_connection_simps)
  moreover
  obtain tx where tx: "createRegisterTransaction example_lib example_connection_registered
      (ascii ''alice'' @ ascii ''.carv'') 7 None = Inr tx"
    using example_register_carv by blast
  with t obtain ix where "tx_instructions tx = [ix]"
    "pubkey (hd (ix_keys ix)) = 0x646F6D61696E616C6963652E63617D81"
    by blast
  moreover have "getAccountInfo example_connection_registered
      (0x646F6D61696E616C6963652E63617D81) = Inr None"
    by (simp add: example_connection_registered_def)
  ultimately show ?thesis using tx by (auto simp: ascii_alice_carv)
qed

section \<open>Token accounts\<close>

lemma isValidPublicKey_total: "\<exists>valid. isValidPublicKey L address = Inr valid"
  by (auto simp: isValidPublicKey_def catch_def bind_err_def Let_def split: sum.splits)

lemma catch_total: "(\<And>e. \<exists>x. h e = Inr x) \<Longrightarrow> \<exists>x. catch m h = Inr x"
  by (cases m) (auto simp: catch_def)

lemma parseTokenAccount_total: "\<exists>result. parseTokenAccount L data = Inr result"
  unfolding parseTokenAccount_def by (rule catch_total) simp

lemma parseTokenAccount_short:
  "len data < 80 \<Longrightarrow> parseTokenAccount L data = Inr None"
  by (simp add: parseTokenAccount_def catch_def)

lemma parseTokenAccount_zero_mint:
  assumes "list_all (\<lambda>byte. byte = 0) (take 32 (bytes data))"
  shows "parseTokenAccount L data = Inr None"
  using assms
  by (simp add: parseTokenAccount_def catch_def bind_err_def bytes_slice)

lemma parseTokenAccount_zero_owner:
  assumes "list_all (\<lambda>byte. byte = 0) (drop 32 (take 64 (bytes data)))"
  shows "parseTokenAccount L data = Inr None"
  using assms
  by (auto simp: parseTokenAccount_def catch_def bind_err_def bytes_slice Let_def
      split: sum.splits option.splits)

lemma amount_view:
  assumes "valid_view data" "80 \<le> len data"
  shows "DataView (buffer (Buffer_slice data 64 72)) (byteOffset (Buffer_slice data 64 72)) 8
    = Inr (drop 64 (take 72 (bytes data)))"
proof -
  have "DataView (buffer data) (byteOffset data + 64) 8 = Inr (take 8 (drop 64 (bytes data)))"
    using assms by (intro DataView_view) simp_all
  moreover have "take 8 (drop 64 (bytes data)) = drop 64 (take 72 (bytes data))"
    by (simp add: drop_take)
  ultimately show ?thesis using assms(2) by (simp add: Buffer_slice_def min_def)
qed

lemma isValidPublicKey_eq:
  "isValidPublicKey L address =
     Inr (length address = 44 \<and> list_all base58_char address \<and> 1 < length (remdups address)
          \<and> (\<exists>key. PublicKey_fromString L address = Inr key))"
  by (cases "PublicKey_fromString L address")
    (auto simp: isValidPublicKey_def catch_def bind_err_def Let_def)

lemma parseTokenAccount_eq:
  assumes v: "valid_view data" and l: "80 \<le> len data"
  shows "parseTokenAccount L data =
     Inr (if \<not> list_all (\<lambda>byte. byte = 0) (take 32 (bytes data))
             \<and> isValidPublicKey L (toBase58 L (of_nat (BN (take 32 (bytes data))))) = Inr True
             \<and> \<not> list_all (\<lambda>byte. byte = 0) (drop 32 (take 64 (bytes data)))
             \<and> isValidPublicKey L (toBase58 L (of_nat (BN (drop 32 (take 64 (bytes data))))))
                 = Inr True
          then Some
            \<lparr>ta_mint = toBase58 L (of_nat (BN (take 32 (bytes data)))),
             ta_owner = toBase58 L (of_nat (BN (drop 32 (take 64 (bytes data))))),
             ta_amount = sint (of_nat (le_nat (drop 64 (take 72 (bytes data)))) :: 64 word),
             ta_decimals = unat (bytes data ! 72),
             ta_uiAmount =
               double_div
                 (Number_BigInt (sint (of_nat (le_nat (drop 64 (take 72 (bytes data)))) :: 64 word)))
                 (Math_pow L 10 (real (unat (bytes data ! 72))))\<rparr>
          else None)"
proof -
  have lb: "length (bytes data) = len data" by (rule length_bytes [OF v])
  have m: "length (take 32 (bytes data)) = 32"
    and ow: "length (drop 32 (take 64 (bytes data))) = 32"
    and am: "length (drop 64 (take 72 (bytes data))) = 8"
    using l lb by simp_all
  note pm = PublicKey_new_32 [OF m]
  note po = PublicKey_new_32 [OF ow]
  have g: "getBigInt64 (drop 64 (take 72 (bytes data))) 0
      = Inr (sint (of_nat (le_nat (drop 64 (take 72 (bytes data)))) :: 64 word))"
    using am by (simp add: getBigInt64_def)
  show ?thesis
    using l unfolding parseTokenAccount_def
    by (simp add: catch_def bind_err_def Let_def bytes_slice pm po amount_view [OF v l] g
        isValidPublicKey_eq)
qed

lemma example_lib_simps2:
  "toBase58 example_lib = example_toBase58"
  "PublicKey_fromString example_lib s = (if s = [] then Inl Error else Inr (of_nat (BN (map ucast s))))"
  by (simp_all add: example_lib_def)

lemma example_mint_valid:
  "isValidPublicKey example_lib (ascii ''EPjFWdd5AufqSSqeM2qN1xzybapC8G4wEGGkZwyTDt1v'') = Inr True"
  by (simp add: isValidPublicKey_def ascii_def base58_char_def catch_def bind_err_def
      example_lib_simps2)

lemma example_owner_valid:
  "isValidPublicKey example_lib (ascii ''9WzDXwBbmkg8ZTbNMqUxvQRAyrZzDsGYdLVL9zYtAWWM'') = Inr True"
  by (simp add: isValidPublicKey_def ascii_def base58_char_def catch_def bind_err_def
      example_lib_simps2)

lemma example_token_parts:
  "len (Buffer_from example_token_bytes) = 82"
  "take 32 example_token_bytes =
     [198, 250, 122, 243, 190, 219, 173, 58, 61, 101, 243, 106, 171, 201, 116, 49,
      177, 187, 228, 194, 210, 246, 224, 228, 124, 166, 2, 3, 69, 47, 93, 97]"
  "drop 32 (take 64 example_token_bytes) =
     [126, 140, 8, 135, 96, 191, 222, 29, 221, 207, 50, 193, 127, 32, 155, 130,
      66, 238, 82, 170, 241, 49, 250, 205, 136, 208, 234, 44, 109, 11, 6, 242]"
  "drop 64 (take 72 example_token_bytes) = [0x60, 0xE3, 0x16, 0, 0, 0, 0, 0]"
  "example_token_bytes ! 72 = 6"
  by (simp_all add: example_token_bytes_def Buffer_from_def)

lemma example_token_keys:
  "PublicKey_new [198, 250, 122, 243, 190, 219, 173, 58, 61, 101, 243, 106, 171, 201, 116, 49,
      177, 187, 228, 194, 210, 246, 224, 228, 124, 166, 2, 3, 69, 47, 93, 97]
     = Inr 0xC6FA7AF3BEDBAD3A3D65F36AABC97431B1BBE4C2D2F6E0E47CA60203452F5D61"
  "PublicKey_new [126, 140, 8, 135, 96, 191, 222, 29, 221, 207, 50, 193, 127, 32, 155, 130,
      66, 238, 82, 170, 241, 49, 250, 205, 136, 208, 234, 44, 109, 11, 6, 242]
     = Inr 0x7E8C088760BFDE1DDDCF32C17F209B8242EE52AAF131FACD88D0EA2C6D0B06F2"
  by (simp_all add: PublicKey_new_def BN_def)

lemma example_token_amount:
  "DataView (buffer (Buffer_slice (Buffer_from example_token_bytes) 64 72))
     (byteOffset (Buffer_slice (Buffer_from example_token_bytes) 64 72)) 8
     = Inr [0x60, 0xE3, 0x16, 0, 0, 0, 0, 0]"
  "getBigInt64 [0x60, 0xE3, 0x16, 0, 0, 0, 0, 0] 0 = Inr 1500000"
  using amount_view [OF valid_view_Buffer_from, of example_token_bytes]
  by (simp_all add: example_token_parts bytes_Buffer_from getBigInt64_def)

lemma example_Math_pow:
  "Math_pow example_lib 10 6 = 1000000"
  "Math_pow example_lib 10 0 = 1"
  using double_round_int [of 1000000] double_round_int [of 1]
  by (simp_all add: example_lib_def)

lemma example_double_div:
  "double_div (Number_BigInt 1500000) 1000000 = 3 / 2"
  "double_div (Number_BigInt 9007199254740993) 1 = 9007199254740992"
  using double_round_int [of 9007199254740992]
  by (simp_all add: double_div_def Number_BigInt_exact Number_BigInt_rounds
      double_round_three_halves)

lemma example_token_parse:
  "parseTokenAccount example_lib (Buffer_from example_token_bytes) =
     Inr (Some \<lparr>ta_mint = ascii ''EPjFWdd5AufqSSqeM2qN1xzybapC8G4wEGGkZwyTDt1v'',
                ta_owner = ascii ''9WzDXwBbmkg8ZTbNMqUxvQRAyrZzDsGYdLVL9zYtAWWM'',
                ta_amount = 1500000, ta_decimals = 6, ta_uiAmount = 3 / 2\<rparr>)"
  by (simp add: parseTokenAccount_def catch_def bind_err_def bytes_slice bytes_Buffer_from
      example_token_parts example_token_keys example_token_amount example_lib_simps2
      example_toBase58_def example_mint_valid example_owner_valid example_Math_pow
      example_double_div)

lemma example_token_large_parts:
  "len (Buffer_from example_token_bytes_large) = 82"
  "take 32 example_token_bytes_large = take 32 example_token_bytes"
  "drop 32 (take 64 example_token_bytes_large) = drop 32 (take 64 example_token_bytes)"
  "drop 64 (take 72 example_token_bytes_large) = [1, 0, 0, 0, 0, 0, 0x20, 0]"
  "example_token_bytes_large ! 72 = 0"
  by (simp_all add: example_token_bytes_large_def example_token_bytes_def Buffer_from_def)

lemma example_token_large_parse:
  "parseTokenAccount example_lib (Buffer_from example_token_bytes_large) =
     Inr (Some \<lparr>ta_mint = ascii ''EPjFWdd5AufqSSqeM2qN1xzybapC8G4wEGGkZwyTDt1v'',
                ta_owner = ascii ''9WzDXwBbmkg8ZTbNMqUxvQRAyrZzDsGYdLVL9zYtAWWM'',
                ta_amount = 9007199254740993, ta_decimals = 0,
                ta_uiAmount = 9007199254740992\<rparr>)"
proof -
  have l: "80 \<le> len (Buffer_from example_token_bytes_large)"
    by (simp add: example_token_large_parts)
  show ?thesis
    unfolding parseTokenAccount_eq [OF valid_view_Buffer_from l]
    by (simp add: bytes_Buffer_from example_token_large_parts example_token_parts
        example_token_keys [unfolded PublicKey_new_def BN_def, simplified]
        example_lib_simps2 example_toBase58_def example_mint_valid example_owner_valid
        example_Math_pow example_double_div BN_def)
qed

text \<open>
  Claim C7, as the code has it: \<open>parseTokenAccount\<close> returns no record for every buffer
  shorter than 80 bytes and for every buffer whose 32-byte mint field (bytes 0 to 32) or
  32-byte owner field (bytes 32 to 64) is all zero, and it never throws. A buffer of at
  least 80 bytes is accepted exactly when neither field is all zero and the base-58 strings
  of both keys pass \<open>isValidPublicKey\<close> (44 characters of the base-58 alphabet, at least two
  different ones, and accepted by the library). For an accepted buffer it reads the mint
  from bytes 0 to 32, the owner from bytes 32 to 64, the amount as a signed 64-bit
  little-endian integer from bytes 64 to 72 and the decimals from byte 72; uiAmount is the
  double quotient of \<open>Number(amount)\<close> by \<open>Math.pow(10, decimals)\<close>, which is the double
  nearest to the amount divided by ten to the power of the decimals whenever the magnitude
  of the amount is at most \<open>2 ^ 53\<close> and the power is exact.
\<close>

theorem parseTokenAccount_result:
  "(\<exists>result. parseTokenAccount L data = Inr result)
   \<and> (len data < 80 \<longrightarrow> parseTokenAccount L data = Inr None)
   \<and> (list_all (\<lambda>byte. byte = 0) (take 32 (bytes data))
        \<or> list_all (\<lambda>byte. byte = 0) (drop 32 (take 64 (bytes data)))
      \<longrightarrow> parseTokenAccount L data = Inr None)
   \<and> (valid_view data \<and> 80 \<le> len data \<longrightarrow>
        (\<exists>mintKey ownerKey.
           PublicKey_new (take 32 (bytes data)) = Inr mintKey
           \<and> toBuffer mintKey = take 32 (bytes data)
           \<and> PublicKey_new (drop 32 (take 64 (bytes data))) = Inr ownerKey
           \<and> toBuffer ownerKey = drop 32 (take 64 (bytes data))
           \<and> (let amount = sint (of_nat (le_nat (drop 64 (take 72 (bytes data)))) :: 64 word);
                   decimals = unat (bytes data ! 72)
               in parseTokenAccount L data =
                    Inr (if \<not> list_all (\<lambda>byte. byte = 0) (take 32 (bytes data))
                            \<and> isValidPublicKey L (toBase58 L mintKey) = Inr True
                            \<and> \<not> list_all (\<lambda>byte. byte = 0) (drop 32 (take 64 (bytes data)))
                            \<and> isValidPublicKey L (toBase58 L ownerKey) = Inr True
                         then Some
                           \<lparr>ta_mint = toBase58 L mintKey, ta_owner = toBase58 L ownerKey,
                            ta_amount = amount, ta_decimals = decimals,
                            ta_uiAmount =
                              double_div (Number_BigInt amount) (Math_pow L 10 (real decimals))\<rparr>
                         else None)
                  \<and> (\<bar>amount\<bar> \<le> 2 ^ 53 \<and> Math_pow L 10 (real decimals) = 10 ^ decimals \<longrightarrow>
                       double_div (Number_BigInt amount) (Math_pow L 10 (real decimals))
                         = double_round (real_of_int amount / 10 ^ decimals)))))
   \<and> (\<forall>address. isValidPublicKey L address =
          Inr (length address = 44 \<and> list_all base58_char address
               \<and> 1 < length (remdups address)
               \<and> (\<exists>key. PublicKey_fromString L address = Inr key)))"
proof (intro conjI impI allI)
  show "\<exists>result. parseTokenAccount L data = Inr result" by (rule parseTokenAccount_total)
  show "parseTokenAccount L data = Inr None" if "len data < 80"
    using that by (rule parseTokenAccount_short)
  show "parseTokenAccount L data = Inr None"
    if "list_all (\<lambda>byte. byte = 0) (take 32 (bytes data))
        \<or> list_all (\<lambda>byte. byte = 0) (drop 32 (take 64 (bytes data)))"
    using that parseTokenAccount_zero_mint [of data L] parseTokenAccount_zero_owner [of data L]
    by blast
  show "isValidPublicKey L address =
          Inr (length address = 44 \<and> list_all base58_char address
               \<and> 1 < length (remdups address)
               \<and> (\<exists>key. PublicKey_fromString L address = Inr key))" for address
    by (rule isValidPublicKey_eq)
next
  assume a: "valid_view data \<and> 80 \<le> len data"
  then have v: "valid_view data" and l: "80 \<le> len data" by simp_all
  have lb: "length (bytes data) = len data" by (rule length_bytes [OF v])
  have m: "length (take 32 (bytes data)) = 32"
    and ow: "length (drop 32 (take 64 (bytes data))) = 32"
    using l lb by simp_all
  note pm = PublicKey_new_32 [OF m]
  note po = PublicKey_new_32 [OF ow]
  show "\<exists>mintKey ownerKey.
           PublicKey_new (take 32 (bytes data)) = Inr mintKey
           \<and> toBuffer mintKey = take 32 (bytes data)
           \<and> PublicKey_new (drop 32 (take 64 (bytes data))) = Inr ownerKey
           \<and> toBuffer ownerKey = drop 32 (take 64 (bytes data))
           \<and> (let amount = sint (of_nat (le_nat (drop 64 (take 72 (bytes data)))) :: 64 word);
                   decimals = unat (bytes data ! 72)
               in parseTokenAccount L data =
                    Inr (if \<not> list_all (\<lambda>byte. byte = 0) (take 32 (bytes data))
                            \<and> isValidPublicKey L (toBase58 L mintKey) = Inr True
                            \<and> \<not> list_all (\<lambda>byte. byte = 0) (drop 32 (take 64 (bytes data)))
                            \<and> isValidPublicKey L (toBase58 L ownerKey) = Inr True
                         then Some
                           \<lparr>ta_mint = toBase58 L mintKey, ta_owner = toBase58 L ownerKey,
                            ta_amount = amount, ta_decimals = decimals,
                            ta_uiAmount =
                              double_div (Number_BigInt amount) (Math_pow L 10 (real decimals))\<rparr>
                         else None)
                  \<and> (\<bar>amount\<bar> \<le> 2 ^ 53 \<and> Math_pow L 10 (real decimals) = 10 ^ decimals \<longrightarrow>
                       double_div (Number_BigInt amount) (Math_pow L 10 (real decimals))
                         = double_round (real_of_int amount / 10 ^ decimals)))"
    apply (rule exI [of _ "of_nat (BN (take 32 (bytes data)))"])
    apply (rule exI [of _ "of_nat (BN (drop 32 (take 64 (bytes data))))"])
    unfolding Let_def
    using parseTokenAccount_eq [OF v l, of L]
    by (simp add: pm po double_div_def Number_BigInt_exact)
qed

theorem parseTokenAccount_result_witness:
  "parseTokenAccount example_lib (Buffer_from (take 77 example_token_bytes)) = Inr None
   \<and> parseTokenAccount example_lib (Buffer_from (replicate 32 0 @ drop 32 example_token_bytes))
       = Inr None
   \<and> parseTokenAccount example_lib (Buffer_from example_token_bytes) =
       Inr (Some \<lparr>ta_mint = ascii ''EPjFWdd5AufqSSqeM2qN1xzybapC8G4wEGGkZwyTDt1v'',
                  ta_owner = ascii ''9WzDXwBbmkg8ZTbNMqUxvQRAyrZzDsGYdLVL9zYtAWWM'',
                  ta_amount = 1500000, ta_decimals = 6, ta_uiAmount = 3 / 2\<rparr>)"
proof -
  have "len (Buffer_from (take 77 example_token_bytes)) < 80"
    by (simp add: Buffer_from_def)
  with parseTokenAccount_result [of example_lib "Buffer_from (take 77 example_token_bytes)"]
  have a: "parseTokenAccount example_lib (Buffer_from (take 77 example_token_bytes)) = Inr None"
    by blast
  have "list_all (\<lambda>byte. byte = 0)
      (take 32 (bytes (Buffer_from (replicate 32 0 @ drop 32 example_token_bytes))))"
    by (simp add: bytes_Buffer_from list_all_iff)
  with parseTokenAccount_result
    [of example_lib "Buffer_from (replicate 32 0 @ drop 32 example_token_bytes)"]
  have b: "parseTokenAccount example_lib
      (Buffer_from (replicate 32 0 @ drop 32 example_token_bytes)) = Inr None"
    by blast
  have "valid_view (Buffer_from example_token_bytes)
      \<and> 80 \<le> len (Buffer_from example_token_bytes)"
    by (simp add: valid_view_Buffer_from example_token_parts)
  with parseTokenAccount_result [of example_lib "Buffer_from example_token_bytes"]
  obtain mintKey ownerKey where k: "PublicKey_new (take 32 example_token_bytes) = Inr mintKey"
    "PublicKey_new (drop 32 (take 64 example_token_bytes)) = Inr ownerKey"
    and p: "parseTokenAccount example_lib (Buffer_from example_token_bytes) =
        Inr (if \<not> list_all (\<lambda>byte. byte = 0) (take 32 example_token_bytes)
                \<and> isValidPublicKey example_lib (toBase58 example_lib mintKey) = Inr True
                \<and> \<not> list_all (\<lambda>byte. byte = 0) (drop 32 (take 64 example_token_bytes))
                \<and> isValidPublicKey example_lib (toBase58 example_lib ownerKey) = Inr True
             then Some
               \<lparr>ta_mint = toBase58 example_lib mintKey, ta_owner = toBase58 example_lib ownerKey,
                ta_amount = sint (of_nat (le_nat (drop 64 (take 72 example_token_bytes))) :: 64 word),
                ta_decimals = unat (example_token_bytes ! 72),
                ta_uiAmount =
                  double_div
                    (Number_BigInt
                      (sint (of_nat (le_nat (drop 64 (take 72 example_token_bytes))) :: 64 word)))
                    (Math_pow example_lib 10 (real (unat (example_token_bytes ! 72))))\<rparr>
             else None)"
    unfolding Let_def bytes_Buffer_from by blast
  from k have "mintKey = 0xC6FA7AF3BEDBAD3A3D65F36AABC97431B1BBE4C2D2F6E0E47CA60203452F5D61"
    "ownerKey = 0x7E8C088760BFDE1DDDCF32C17F209B8242EE52AAF131FACD88D0EA2C6D0B06F2"
    by (simp_all add: example_token_parts example_token_keys)
  with p have "parseTokenAccount example_lib (Buffer_from example_token_bytes) =
       Inr (Some \<lparr>ta_mint = ascii ''EPjFWdd5AufqSSqeM2qN1xzybapC8G4wEGGkZwyTDt1v'',
                  ta_owner = ascii ''9WzDXwBbmkg8ZTbNMqUxvQRAyrZzDsGYdLVL9zYtAWWM'',
                  ta_amount = 1500000, ta_decimals = 6, ta_uiAmount = 3 / 2\<rparr>)"
    by (simp add: example_token_parts example_lib_simps2 example_toBase58_def
        example_mint_valid example_owner_valid example_Math_pow example_double_div)
  with a b show ?thesis by blast
qed

text \<open>
  Claim C7 as written makes uiAmount the amount divided by ten to the power of the
  decimals. For the amount \<open>2 ^ 53 + 1\<close> and decimals 0 the record holds the amount
  9007199254740993 and the uiAmount 9007199254740992.
\<close>

theorem parseTokenAccount_uiAmount_counterexample:
  "map_sum id (map_option ta_amount)
     (parseTokenAccount example_lib (Buffer_from example_token_bytes_large))
     = Inr (Some 9007199254740993)
   \<and> map_sum id (map_option ta_decimals)
     (parseTokenAccount example_lib (Buffer_from example_token_bytes_large)) = Inr (Some 0)
   \<and> map_sum id (map_option ta_uiAmount)
     (parseTokenAccount example_lib (Buffer_from example_token_bytes_large))
     = Inr (Some 9007199254740992)
   \<and> real_of_int 9007199254740993 / 10 ^ 0 \<noteq> 9007199254740992"
  by (simp add: example_token_large_parse)

end
